theory Spec2Isabelle
  imports Complex_Main "HOL-Library.Sublist"
begin

section \<open>Python and numpy values\<close>

text \<open>
  Exceptions of the Python run are values. The payload of \<open>AttributeError\<close>,
  \<open>NameError\<close> and \<open>KeyError\<close> is the name that could not be resolved, the payload of
  \<open>IOError\<close> is the file name, and the payload of \<open>ValueError\<close> is the text Python puts
  into the message: for \<open>float(s)\<close> that is the string \<open>s\<close> itself and nothing else.
\<close>

datatype error =
    AttributeError string
  | NameError string
  | ValueError string
  | KeyError string
  | IOError string
  | IndexError
  | TypeError

text \<open>
  A cell of a numpy float array. Finite values are idealised as reals (rounding, overflow
  and the sign of zero are not modelled); the three special values of IEEE arithmetic are
  kept, because the program stores NaN itself and divides by a standard deviation that can
  be zero.
\<close>

datatype npfloat = Num real | PosInf | NegInf | NaN

fun np_neg :: "npfloat \<Rightarrow> npfloat" where
  "np_neg (Num x) = Num (- x)"
| "np_neg PosInf = NegInf"
| "np_neg NegInf = PosInf"
| "np_neg NaN = NaN"

fun np_add :: "npfloat \<Rightarrow> npfloat \<Rightarrow> npfloat" where
  "np_add NaN y = NaN"
| "np_add x NaN = NaN"
| "np_add (Num x) (Num y) = Num (x + y)"
| "np_add PosInf NegInf = NaN"
| "np_add NegInf PosInf = NaN"
| "np_add PosInf y = PosInf"
| "np_add x PosInf = PosInf"
| "np_add NegInf y = NegInf"
| "np_add x NegInf = NegInf"

definition np_sub :: "npfloat \<Rightarrow> npfloat \<Rightarrow> npfloat" where
  "np_sub x y = np_add x (np_neg y)"

fun np_mul :: "npfloat \<Rightarrow> npfloat \<Rightarrow> npfloat" where
  "np_mul NaN y = NaN"
| "np_mul x NaN = NaN"
| "np_mul (Num x) (Num y) = Num (x * y)"
| "np_mul (Num x) y =
     (if x = 0 then NaN else if (0 < x) = (y = PosInf) then PosInf else NegInf)"
| "np_mul x (Num y) =
     (if y = 0 then NaN else if (0 < y) = (x = PosInf) then PosInf else NegInf)"
| "np_mul x y = (if x = y then PosInf else NegInf)"

fun np_div :: "npfloat \<Rightarrow> npfloat \<Rightarrow> npfloat" where
  "np_div NaN y = NaN"
| "np_div x NaN = NaN"
| "np_div (Num x) (Num y) =
     (if y \<noteq> 0 then Num (x / y)
      else if x = 0 then NaN else if 0 < x then PosInf else NegInf)"
| "np_div (Num x) y = Num 0"
| "np_div x (Num y) = (if (0 \<le> y) = (x = PosInf) then PosInf else NegInf)"
| "np_div x y = NaN"

fun np_sqrt :: "npfloat \<Rightarrow> npfloat" where
  "np_sqrt (Num x) = (if 0 \<le> x then Num (sqrt x) else NaN)"
| "np_sqrt PosInf = PosInf"
| "np_sqrt NegInf = NaN"
| "np_sqrt NaN = NaN"

definition np_sum :: "npfloat list \<Rightarrow> npfloat" where
  "np_sum xs = foldl np_add (Num 0) xs"

text \<open>\<open>np.nanmean\<close> and \<open>np.nanstd\<close> of a vector: NaN entries are left out, and a vector
  without any other entry yields NaN (0 / 0).\<close>

definition nanmean :: "npfloat list \<Rightarrow> npfloat" where
  "nanmean xs =
     (let ys = filter (\<lambda>x. x \<noteq> NaN) xs
      in np_div (np_sum ys) (Num (real (length ys))))"

definition nanstd :: "npfloat list \<Rightarrow> npfloat" where
  "nanstd xs =
     (let ys = filter (\<lambda>x. x \<noteq> NaN) xs;
          cnt = Num (real (length ys));
          avg = np_div (np_sum ys) cnt;
          sqr = map (\<lambda>y. np_mul (np_sub y avg) (np_sub y avg)) ys
      in np_sqrt (np_div (np_sum sqr) cnt))"

text \<open>\<open>(column - mean) / std\<close>, elementwise.\<close>

definition scale_column :: "npfloat \<Rightarrow> npfloat \<Rightarrow> npfloat list \<Rightarrow> npfloat list" where
  "scale_column m s col = map (\<lambda>x. np_div (np_sub x m) s) col"

text \<open>\<open>.astype(int)\<close>: truncation towards zero; a value with no 64-bit image (NaN, an
  infinity, a value out of range) becomes the smallest 64-bit integer, as numpy does on
  x86-64.\<close>

definition astype_int :: "npfloat \<Rightarrow> int" where
  "astype_int x =
     (case x of
        Num r \<Rightarrow>
          (let t = (if 0 \<le> r then \<lfloor>r\<rfloor> else \<lceil>r\<rceil>)
           in if - (2 ^ 63) \<le> t \<and> t < 2 ^ 63 then t else - (2 ^ 63))
      | _ \<Rightarrow> - (2 ^ 63))"

text \<open>
  A two-dimensional array, stored by columns: \<open>a[:, c]\<close> is \<open>cols a ! c\<close>,
  \<open>a.shape\<close> is \<open>(nrows a, length (cols a))\<close>. The row count is a field of its own
  because an array may have rows and no column.
\<close>

record ndarray =
  nrows :: nat
  cols :: "npfloat list list"

text \<open>\<open>np.ndarray(shape)\<close> allocates without initialising: the cells hold whatever the
  memory held, given here by \<open>g\<close>.\<close>

definition np_ndarray :: "(nat \<Rightarrow> nat \<Rightarrow> npfloat) \<Rightarrow> nat \<Rightarrow> nat \<Rightarrow> ndarray" where
  "np_ndarray g n m = \<lparr>nrows = n, cols = map (\<lambda>c. map (\<lambda>r. g r c) [0..<n]) [0..<m]\<rparr>"

text \<open>\<open>a[r, c] = v\<close>\<close>

definition setitem :: "ndarray \<Rightarrow> nat \<Rightarrow> nat \<Rightarrow> npfloat \<Rightarrow> error + ndarray" where
  "setitem a r c v =
     (if r < nrows a \<and> c < length (cols a)
      then Inr (a\<lparr>cols := (cols a)[c := (cols a ! c)[r := v]]\<rparr>)
      else Inl IndexError)"

text \<open>\<open>np.hstack\<close>: the arrays must agree on their row count.\<close>

definition hstack :: "ndarray list \<Rightarrow> error + ndarray" where
  "hstack arrs =
     (case arrs of
        [] \<Rightarrow> Inl (ValueError ''need at least one array to concatenate'')
      | a # rest \<Rightarrow>
          if list_all (\<lambda>b. nrows b = nrows a) rest
          then Inr \<lparr>nrows = nrows a, cols = concat (map cols arrs)\<rparr>
          else Inl (ValueError ''all the input array dimensions must match''))"

text \<open>\<open>list.index\<close>: the first position of \<open>x\<close>; \<open>None\<close> stands for Python's ValueError.\<close>

fun index_of :: "'a list \<Rightarrow> 'a \<Rightarrow> nat option" where
  "index_of [] x = None"
| "index_of (y # ys) x = (if y = x then Some 0 else map_option Suc (index_of ys x))"

text \<open>\<open>sub in s\<close> on strings.\<close>

fun str_contains :: "string \<Rightarrow> string \<Rightarrow> bool" where
  "str_contains sub [] = (sub = [])"
| "str_contains sub (c # cs) = (take (length sub) (c # cs) = sub \<or> str_contains sub cs)"

section \<open>The object and its environment\<close>

text \<open>
  A dictionary whose order matters (\<open>features\<close>) is a list of pairs in insertion order; a
  Python dictionary has no duplicate key, which theorems that depend on it assume as
  \<open>distinct (map fst d)\<close>. \<open>classDict\<close> and \<open>norm\<close> are only looked up by key and are
  maps.
\<close>

type_synonym feature_dict = "(string \<times> string) list"

record stats =
  mean :: npfloat
  std :: npfloat

type_synonym csv_row = "string \<rightharpoonup> string"

text \<open>
  What the program takes from outside: the files (\<open>csv.DictReader\<close> over \<open>open\<close> gives the
  records of a file, one mapping from field name to string each; \<open>None\<close> is a file that
  cannot be opened), the builtin \<open>float\<close> on strings (\<open>None\<close> is its ValueError), and the
  contents of the memory \<open>np.ndarray\<close> hands out.
\<close>

record env =
  files :: "string \<rightharpoonup> csv_row list"
  pyfloat :: "string \<Rightarrow> npfloat option"
  uninit_input :: "nat \<Rightarrow> nat \<Rightarrow> npfloat"
  uninit_target :: "nat \<Rightarrow> nat \<Rightarrow> npfloat"

text \<open>
  The attributes of a \<open>MachineLearningSet\<close>. An attribute that holds Python's \<open>None\<close>, or
  that has not been assigned yet, is \<open>None\<close>. \<open>classDict\<close> and \<open>norm\<close> are the caller's
  own dictionaries, held by reference: what a method stores into them stays stored when
  the method raises.
\<close>

record mls =
  csvFileName :: string
  features :: feature_dict
  input_features :: feature_dict
  target_features :: feature_dict
  classDict :: "string \<rightharpoonup> string list"
  norm_dict :: "string \<rightharpoonup> stats"
  input_set :: "ndarray option"
  target_set :: "ndarray option"
  input_vector_length :: "nat option"
  target_vector_length :: "nat option"
  nan_behaviour :: "string option"

text \<open>
  A method returns the object as it has left it, and the exception it raised, if any.
  \<open>and_then\<close> is sequencing, \<open>for_each\<close> a \<open>for\<close> loop: both stop at the first exception.
\<close>

definition and_then :: "'s \<times> error option \<Rightarrow> ('s \<Rightarrow> 's \<times> error option) \<Rightarrow> 's \<times> error option" where
  "and_then r f = (case snd r of None \<Rightarrow> f (fst r) | Some e \<Rightarrow> r)"

fun for_each :: "('a \<Rightarrow> 's \<Rightarrow> 's \<times> error option) \<Rightarrow> 'a list \<Rightarrow> 's \<Rightarrow> 's \<times> error option" where
  "for_each body [] s = (s, None)"
| "for_each body (x # xs) s =
     (case body x s of
        (s', None) \<Rightarrow> for_each body xs s'
      | (s', Some e) \<Rightarrow> (s', Some e))"

text \<open>
  The source writes every step twice, once for the input matrix and once for the target
  matrix. The model writes it once, with the side as an argument.
\<close>

datatype side = Input | Target

fun get_set :: "side \<Rightarrow> mls \<Rightarrow> ndarray option" where
  "get_set Input self = input_set self"
| "get_set Target self = target_set self"

fun put_set :: "side \<Rightarrow> ndarray \<Rightarrow> mls \<Rightarrow> mls" where
  "put_set Input a self = self\<lparr>input_set := Some a\<rparr>"
| "put_set Target a self = self\<lparr>target_set := Some a\<rparr>"

fun side_features :: "side \<Rightarrow> mls \<Rightarrow> feature_dict" where
  "side_features Input self = input_features self"
| "side_features Target self = target_features self"

text \<open>\<open>list(self.input_features.keys()).index(feature)\<close>\<close>

definition column_index :: "side \<Rightarrow> mls \<Rightarrow> string \<Rightarrow> nat option" where
  "column_index side self feature = index_of (map fst (side_features side self)) feature"

text \<open>\<open>self.input_set[:, c]\<close>\<close>

definition get_column :: "side \<Rightarrow> mls \<Rightarrow> nat \<Rightarrow> error + npfloat list" where
  "get_column side self c =
     (case get_set side self of
        None \<Rightarrow> Inl TypeError
      | Some a \<Rightarrow> if c < length (cols a) then Inr (cols a ! c) else Inl IndexError)"

text \<open>\<open>self.input_set[:, c] = col\<close>\<close>

definition set_column :: "side \<Rightarrow> mls \<Rightarrow> nat \<Rightarrow> npfloat list \<Rightarrow> mls \<times> error option" where
  "set_column side self c col =
     (case get_set side self of
        None \<Rightarrow> (self, Some TypeError)
      | Some a \<Rightarrow>
          if c < length (cols a)
          then (put_set side (a\<lparr>cols := (cols a)[c := col]\<rparr>) self, None)
          else (self, Some IndexError))"

text \<open>\<open>self.input_set[r, c] = v\<close>\<close>

definition set_cell :: "side \<Rightarrow> mls \<Rightarrow> nat \<Rightarrow> nat \<Rightarrow> npfloat \<Rightarrow> mls \<times> error option" where
  "set_cell side self r c v =
     (case get_set side self of
        None \<Rightarrow> (self, Some TypeError)
      | Some a \<Rightarrow>
          (case setitem a r c v of
             Inl e \<Rightarrow> (self, Some e)
           | Inr a' \<Rightarrow> (put_set side a' self, None)))"

section \<open>Filling the matrices\<close>

text \<open>The branch of a \<open>continuous\<close> or \<open>target_continuous\<close> field, lines 85 to 100.\<close>

definition store_float :: "env \<Rightarrow> side \<Rightarrow> nat \<Rightarrow> string \<Rightarrow> string \<Rightarrow> mls \<Rightarrow> mls \<times> error option" where
  "store_float e side r feature s self =
     (case column_index side self feature of
        None \<Rightarrow> (self, Some (ValueError feature))
      | Some c \<Rightarrow>
          if s = [] then set_cell side self r c NaN
          else (case pyfloat e s of
                  None \<Rightarrow> (self, Some (ValueError s))
                | Some v \<Rightarrow> set_cell side self r c v))"

text \<open>The dictionary part of the branch of a \<open>class\<close> or \<open>target_class\<close> field: the
  dictionary after the two \<open>if\<close>s of lines 103 to 108, and the value's index in it.\<close>

definition class_code :: "(string \<rightharpoonup> string list) \<Rightarrow> string \<Rightarrow> string
    \<Rightarrow> (string \<rightharpoonup> string list) \<times> nat option" where
  "class_code cd feature s =
     (let seen = (case cd feature of None \<Rightarrow> [] | Some vs \<Rightarrow> vs);
          seen' = (if s \<in> set seen then seen else seen @ [s])
      in (cd(feature \<mapsto> seen'), index_of seen' s))"

definition store_class :: "side \<Rightarrow> nat \<Rightarrow> string \<Rightarrow> string \<Rightarrow> mls \<Rightarrow> mls \<times> error option" where
  "store_class side r feature s self =
     (let (cd, code) = class_code (classDict self) feature s;
          self' = self\<lparr>classDict := cd\<rparr>
      in case column_index side self' feature of
           None \<Rightarrow> (self', Some (ValueError feature))
         | Some c \<Rightarrow>
             (case code of
                None \<Rightarrow> (self', Some (ValueError s))
              | Some k \<Rightarrow> set_cell side self' r c (Num (real k))))"

text \<open>The body of the inner loop of \<open>_construct_matrices\<close>, lines 81 to 120.\<close>

definition fill_cell :: "env \<Rightarrow> nat \<Rightarrow> csv_row \<Rightarrow> string \<Rightarrow> mls \<Rightarrow> mls \<times> error option" where
  "fill_cell e r row feature self =
     (case row feature of
        None \<Rightarrow> (self, None)
      | Some s \<Rightarrow>
          (case map_of (features self) feature of
             None \<Rightarrow> (self, Some (KeyError feature))
           | Some kind \<Rightarrow>
               if kind = ''continuous'' then store_float e Input r feature s self
               else if kind = ''target_continuous'' then store_float e Target r feature s self
               else if kind = ''class'' then store_class Input r feature s self
               else if kind = ''target_class'' then store_class Target r feature s self
               else (self, None)))"

definition fill_row :: "env \<Rightarrow> nat \<times> csv_row \<Rightarrow> mls \<Rightarrow> mls \<times> error option" where
  "fill_row e = (\<lambda>(r, row) self. for_each (fill_cell e r row) (map fst (features self)) self)"

definition fill_rows :: "env \<Rightarrow> csv_row list \<Rightarrow> mls \<Rightarrow> mls \<times> error option" where
  "fill_rows e rows self = for_each (fill_row e) (enumerate 0 rows) self"

section \<open>Normalizing\<close>

text \<open>
  One branch of the loop of \<open>_normalize\<close>, in its two steps. \<open>compute_stats\<close> is the
  \<open>if feature not in self.norm.keys()\<close> of lines 162 to 166 and of lines 173 to 177: the
  statistics of column \<open>c\<close> of the matrix on \<open>stats_side\<close> are stored unless the field has an
  entry. \<open>apply_stats\<close> is the assignment of line 168 and of line 178.
\<close>

definition compute_stats :: "side \<Rightarrow> string \<Rightarrow> nat \<Rightarrow> mls \<Rightarrow> error + mls" where
  "compute_stats stats_side feature c self =
     (if norm_dict self feature = None
      then (case get_column stats_side self c of
              Inl e \<Rightarrow> Inl e
            | Inr col \<Rightarrow>
                Inr (self\<lparr>norm_dict := (norm_dict self)
                       (feature \<mapsto> \<lparr>mean = nanmean col, std = nanstd col\<rparr>)\<rparr>))
      else Inr self)"

definition apply_stats :: "side \<Rightarrow> string \<Rightarrow> nat \<Rightarrow> mls \<Rightarrow> mls \<times> error option" where
  "apply_stats side feature c self =
     (case norm_dict self feature of
        None \<Rightarrow> (self, Some (KeyError feature))
      | Some st \<Rightarrow>
          (case get_column side self c of
             Inl e \<Rightarrow> (self, Some e)
           | Inr col \<Rightarrow> set_column side self c (scale_column (mean st) (std st) col)))"

text \<open>
  Lines 160 to 168 are \<open>normalize_column Input Input\<close>; lines 172 to 178 are
  \<open>normalize_column Target Input\<close>, since both branches compute the statistics from
  \<open>self.input_set\<close>.
\<close>

definition normalize_column :: "side \<Rightarrow> side \<Rightarrow> string \<Rightarrow> mls \<Rightarrow> mls \<times> error option" where
  "normalize_column side stats_side feature self =
     (case column_index side self feature of
        None \<Rightarrow> (self, Some (ValueError feature))
      | Some c \<Rightarrow>
          (case compute_stats stats_side feature c self of
             Inl e \<Rightarrow> (self, Some e)
           | Inr self' \<Rightarrow> apply_stats side feature c self'))"

definition normalize_feature :: "string \<Rightarrow> mls \<Rightarrow> mls \<times> error option" where
  "normalize_feature feature self =
     (if map_of (input_features self) feature = Some ''continuous''
      then normalize_column Input Input feature self
      else if map_of (target_features self) feature = Some ''target_continuous''
      then normalize_column Target Input feature self
      else (self, None))"

text \<open>
  \<open>_normalize\<close>. Line 153 reads the attribute \<open>nan_behaviour\<close>; line 154 evaluates the
  name \<open>input_set\<close>, which is neither a local nor a global of the module.
\<close>

definition normalize_mls :: "mls \<Rightarrow> mls \<times> error option" where
  "normalize_mls self =
     (case nan_behaviour self of
        None \<Rightarrow> (self, Some (AttributeError ''nan_behaviour''))
      | Some nb \<Rightarrow>
          if nb = ''delete_row'' then (self, Some (NameError ''input_set''))
          else for_each normalize_feature (map fst (features self)) self)"

section \<open>One-hot encoding\<close>

text \<open>
  \<open>_hot_encode\<close>. Its argument is always a vector here, so the test of line 191 has no
  branch. Fancy indexing accepts an index \<open>j\<close> with \<open>- max_i \<le> j < max_i\<close> and counts a
  negative one from the end.
\<close>

definition hot_encode :: "int list \<Rightarrow> int option \<Rightarrow> error + ndarray" where
  "hot_encode i max_i_arg =
     (case (case max_i_arg of
              Some m \<Rightarrow> Inr m
            | None \<Rightarrow> if i = [] then Inl (ValueError ''max() arg is an empty sequence'')
                      else Inr (fold max (tl i) (hd i) + 1)) of
        Inl e \<Rightarrow> Inl e
      | Inr max_i \<Rightarrow>
          if max_i < 0 then Inl (ValueError ''negative dimensions are not allowed'')
          else if list_ex (\<lambda>j. j < - max_i \<or> max_i \<le> j) i then Inl IndexError
          else
            (let v = map (\<lambda>col. map (\<lambda>j. if (if j < 0 then j + max_i else j) = int col
                                           then Num 1 else Num 0) i)
                         [0..<nat max_i]
             in if max_i \<le> 2
                then (case v of
                        [] \<Rightarrow> Inl IndexError
                      | v0 # rest \<Rightarrow> Inr \<lparr>nrows = length i, cols = [v0]\<rparr>)
                else Inr \<lparr>nrows = length i, cols = v\<rparr>))"

text \<open>
  The body of a loop of \<open>_encode_classes\<close> (lines 128 to 139, and 144 to 149 for the
  target side); the loop's state is the object and \<open>c_offset\<close>. An encoded array has at
  least one column, so \<open>c_offset\<close> never decreases.
\<close>

definition encode_feature :: "side \<Rightarrow> string \<Rightarrow> string \<Rightarrow> mls \<times> nat \<Rightarrow> (mls \<times> nat) \<times> error option" where
  "encode_feature side class_kind feature = (\<lambda>(self, c_offset).
     if map_of (side_features side self) feature = Some class_kind then
       (case column_index side self feature of
          None \<Rightarrow> ((self, c_offset), Some (ValueError feature))
        | Some i \<Rightarrow>
            (let c = i + c_offset in
             case classDict self feature of
               None \<Rightarrow> ((self, c_offset), Some (KeyError feature))
             | Some classes \<Rightarrow>
                 (case get_column side self c of
                    Inl e \<Rightarrow> ((self, c_offset), Some e)
                  | Inr col \<Rightarrow>
                      (case hot_encode (map astype_int col) (Some (int (length classes))) of
                         Inl e \<Rightarrow> ((self, c_offset), Some e)
                       | Inr encoded \<Rightarrow>
                           (case get_set side self of
                              None \<Rightarrow> ((self, c_offset), Some TypeError)
                            | Some a \<Rightarrow>
                                (case hstack [a\<lparr>cols := take c (cols a)\<rparr>, encoded,
                                              a\<lparr>cols := drop (c + 1) (cols a)\<rparr>] of
                                   Inl e \<Rightarrow>
                                     ((self, c_offset + length (cols encoded) - 1), Some e)
                                 | Inr a' \<Rightarrow>
                                     ((put_set side a' self,
                                       c_offset + length (cols encoded) - 1), None)))))))
     else ((self, c_offset), None))"

definition encode_side :: "side \<Rightarrow> string \<Rightarrow> mls \<Rightarrow> mls \<times> error option" where
  "encode_side side class_kind self =
     (case for_each (encode_feature side class_kind)
             (map fst (side_features side self)) (self, 0) of
        ((self', c_offset), err) \<Rightarrow> (self', err))"

definition encode_classes :: "mls \<Rightarrow> mls \<times> error option" where
  "encode_classes self =
     and_then (encode_side Input ''class'' self) (encode_side Target ''target_class'')"

section \<open>Construction\<close>

definition get_csv_rowcount :: "env \<Rightarrow> string \<Rightarrow> error + nat" where
  "get_csv_rowcount e name =
     (case files e name of None \<Rightarrow> Inl (IOError name) | Some rows \<Rightarrow> Inr (length rows))"

definition construct_matrices :: "env \<Rightarrow> mls \<Rightarrow> mls \<times> error option" where
  "construct_matrices e self =
     (case get_csv_rowcount e (csvFileName self) of
        Inl err \<Rightarrow> (self, Some err)
      | Inr rowCount \<Rightarrow>
          (let self1 = self\<lparr>
                 input_set := Some (np_ndarray (uninit_input e) rowCount
                                      (length (input_features self))),
                 target_set := Some (np_ndarray (uninit_target e) rowCount
                                       (length (target_features self)))\<rparr>
           in case files e (csvFileName self1) of
                None \<Rightarrow> (self1, Some (IOError (csvFileName self1)))
              | Some rows \<Rightarrow>
                  and_then (and_then (fill_rows e rows self1) normalize_mls) encode_classes))"

text \<open>The attributes after lines 53 to 60 of \<open>__init__\<close>.\<close>

definition init_attributes :: "string \<Rightarrow> feature_dict \<Rightarrow> (string \<rightharpoonup> string list)
    \<Rightarrow> (string \<rightharpoonup> stats) \<Rightarrow> mls" where
  "init_attributes name feats cd nm =
     \<lparr>csvFileName = name,
      features = filter (\<lambda>(f, k). k \<noteq> ''ignore'') feats,
      input_features =
        filter (\<lambda>(f, k). k \<noteq> ''ignore'' \<and> \<not> str_contains ''target'' k) feats,
      target_features =
        filter (\<lambda>(f, k). k \<noteq> ''ignore'' \<and> str_contains ''target'' k) feats,
      classDict = cd,
      norm_dict = nm,
      input_set = None,
      target_set = None,
      input_vector_length = None,
      target_vector_length = None,
      nan_behaviour = None\<rparr>"

text \<open>\<open>self.input_set.shape[1]\<close>\<close>

definition shape1 :: "ndarray option \<Rightarrow> error + nat" where
  "shape1 a = (case a of None \<Rightarrow> Inl (AttributeError ''shape'') | Some b \<Rightarrow> Inr (length (cols b)))"

text \<open>\<open>MachineLearningSet.__init__\<close>: the object it leaves and the exception it raises
  (\<open>None\<close>: the constructor returns).\<close>

definition init :: "env \<Rightarrow> string \<Rightarrow> feature_dict \<Rightarrow> (string \<rightharpoonup> string list)
    \<Rightarrow> (string \<rightharpoonup> stats) \<Rightarrow> string \<Rightarrow> mls \<times> error option" where
  "init e name feats cd nm nb =
     and_then (construct_matrices e (init_attributes name feats cd nm))
       (\<lambda>self.
          case shape1 (input_set self) of
            Inl err \<Rightarrow> (self, Some err)
          | Inr n \<Rightarrow>
              (case shape1 (target_set self) of
                 Inl err \<Rightarrow> (self\<lparr>input_vector_length := Some n\<rparr>, Some err)
               | Inr m \<Rightarrow>
                   (self\<lparr>input_vector_length := Some n,
                          target_vector_length := Some m,
                          nan_behaviour := Some nb\<rparr>, None)))"

text \<open>The constants of lines 12 and 13; no function of the module reads them.\<close>

definition FEATURETYPES :: "string list" where
  "FEATURETYPES = [''continuous'', ''class'', ''ignore'', ''target_continuous'', ''target_class'']"

definition NANBEHAVIOUR :: "string list" where
  "NANBEHAVIOUR = [''ignore'', ''delete_row'']"

section \<open>Concrete runs\<close>

text \<open>
  The builtin \<open>float\<close> on the strings the concrete runs below use: an optional sign, digits,
  and an optional fraction. Every other string is rejected here, which for the strings of
  the runs is what Python does.
\<close>

definition digit_val :: "char \<Rightarrow> nat option" where
  "digit_val c = index_of ''0123456789'' c"

fun digits_val :: "nat \<Rightarrow> string \<Rightarrow> nat option" where
  "digits_val acc [] = Some acc"
| "digits_val acc (c # cs) =
     (case digit_val c of None \<Rightarrow> None | Some d \<Rightarrow> digits_val (10 * acc + d) cs)"

definition unsigned_decimal :: "string \<Rightarrow> real option" where
  "unsigned_decimal s =
     (let ip = takeWhile (\<lambda>c. c \<noteq> CHR ''.'') s;
          rest = dropWhile (\<lambda>c. c \<noteq> CHR ''.'') s;
          fp = (if rest = [] then [] else tl rest)
      in if ip = [] \<and> fp = [] then None
         else (case (digits_val 0 ip, digits_val 0 fp) of
                 (Some a, Some b) \<Rightarrow> Some (real a + real b / 10 ^ length fp)
               | _ \<Rightarrow> None))"

definition decimal_float :: "string \<Rightarrow> npfloat option" where
  "decimal_float s =
     (case s of
        [] \<Rightarrow> None
      | c # cs \<Rightarrow>
          if c = CHR ''-'' then map_option (\<lambda>x. Num (- x)) (unsigned_decimal cs)
          else map_option Num (unsigned_decimal s))"

definition test_env :: "(string \<rightharpoonup> csv_row list) \<Rightarrow> env" where
  "test_env fs = \<lparr>files = fs, pyfloat = decimal_float,
                  uninit_input = (\<lambda>r c. Num 0), uninit_target = (\<lambda>r c. Num 0)\<rparr>"

text \<open>The scenario of the specification for \<open>delete_row\<close>: input rows
  \<open>[[1, 2], [NaN, 3], [4, 5]]\<close>, three target rows, and the policy already stored in the
  attribute.\<close>

definition delete_row_scenario :: mls where
  "delete_row_scenario =
     (init_attributes ''f'' [(''a'', ''continuous''), (''b'', ''continuous''),
                             (''t'', ''target_continuous'')] Map.empty Map.empty)
       \<lparr>input_set := Some \<lparr>nrows = 3, cols = [[Num 1, NaN, Num 4], [Num 2, Num 3, Num 5]]\<rparr>,
        target_set := Some \<lparr>nrows = 3, cols = [[Num 7, Num 8, Num 9]]\<rparr>,
        nan_behaviour := Some ''delete_row''\<rparr>"

section \<open>Predicates of the statements\<close>

text \<open>The attributes that filling the matrices leaves alone.\<close>

definition same_schema :: "mls \<Rightarrow> mls \<Rightarrow> bool" where
  "same_schema a b =
     (csvFileName b = csvFileName a \<and> features b = features a
      \<and> input_features b = input_features a \<and> target_features b = target_features a
      \<and> norm_dict b = norm_dict a \<and> nan_behaviour b = nan_behaviour a)"

text \<open>Both matrices are allocated with \<open>n\<close> rows and one column per field of their side.\<close>

definition shaped :: "nat \<Rightarrow> mls \<Rightarrow> bool" where
  "shaped n self =
     (\<forall>side. \<exists>a. get_set side self = Some a \<and> nrows a = n
        \<and> length (cols a) = length (side_features side self))"

text \<open>Every field of a kind that \<open>_construct_matrices\<close> stores is a key of the dictionary in
  which the store looks up its column.\<close>

definition classified :: "mls \<Rightarrow> bool" where
  "classified self =
     (\<forall>f. ((map_of (features self) f = Some ''continuous''
              \<or> map_of (features self) f = Some ''class'')
               \<longrightarrow> f \<in> fst ` set (input_features self))
          \<and> ((map_of (features self) f = Some ''target_continuous''
              \<or> map_of (features self) f = Some ''target_class'')
               \<longrightarrow> f \<in> fst ` set (target_features self)))"

text \<open>The cell of field \<open>f\<close> in a record does not make \<open>float\<close> raise: the field is absent,
  or not continuous, or empty, or \<open>float\<close> accepts it.\<close>

definition cell_parses :: "env \<Rightarrow> feature_dict \<Rightarrow> csv_row \<Rightarrow> string \<Rightarrow> bool" where
  "cell_parses e feats row f =
     (case row f of
        None \<Rightarrow> True
      | Some s \<Rightarrow>
          (map_of feats f = Some ''continuous'' \<or> map_of feats f = Some ''target_continuous'')
            \<longrightarrow> s = [] \<or> pyfloat e s \<noteq> None)"

text \<open>The object after lines 73 and 74.\<close>

definition allocated :: "env \<Rightarrow> nat \<Rightarrow> mls \<Rightarrow> mls" where
  "allocated e n self = self\<lparr>
      input_set := Some (np_ndarray (uninit_input e) n (length (input_features self))),
      target_set := Some (np_ndarray (uninit_target e) n (length (target_features self)))\<rparr>"

text \<open>The file opens, and no cell of a declared field makes \<open>float\<close> raise.\<close>

definition source_parses :: "env \<Rightarrow> string \<Rightarrow> feature_dict \<Rightarrow> bool" where
  "source_parses e name feats =
     (let fs = filter (\<lambda>(f, k). k \<noteq> ''ignore'') feats
      in case files e name of
           None \<Rightarrow> False
         | Some rows \<Rightarrow> list_all (\<lambda>row. list_all (cell_parses e fs row) (map fst fs)) rows)"

text \<open>Two records: one that parses, one with a continuous cell that does not.\<close>

definition good_row :: csv_row where
  "good_row = [''a'' \<mapsto> ''1.5'', ''b'' \<mapsto> ''x'']"

definition bad_row :: csv_row where
  "bad_row = [''a'' \<mapsto> ''abc'', ''b'' \<mapsto> ''y'']"

text \<open>The array after \<open>a[r, c] = v\<close>.\<close>

definition store_cell :: "ndarray \<Rightarrow> nat \<Rightarrow> nat \<Rightarrow> npfloat \<Rightarrow> ndarray" where
  "store_cell a r c v = a\<lparr>cols := (cols a)[c := (cols a ! c)[r := v]]\<rparr>"

text \<open>Two files with the same unparsable text in different records and fields.\<close>

definition two_continuous :: feature_dict where
  "two_continuous = [(''a'', ''continuous''), (''b'', ''continuous'')]"

definition bad_first :: "csv_row list" where
  "bad_first = [[''a'' \<mapsto> ''abc'', ''b'' \<mapsto> ''1'']]"

definition bad_later :: "csv_row list" where
  "bad_later = [[''a'' \<mapsto> ''1'', ''b'' \<mapsto> ''2''], [''a'' \<mapsto> ''3'', ''b'' \<mapsto> ''abc'']]"

text \<open>A schema with an unrecognized kind.\<close>

definition bogus_schema :: feature_dict where
  "bogus_schema = [(''a'', ''bogus'')]"

text \<open>An object with one continuous input field and one continuous target field, both
  matrices filled, no statistics yet.\<close>

definition stats_scenario :: mls where
  "stats_scenario =
     (init_attributes ''f'' [(''x'', ''continuous''), (''y'', ''target_continuous'')]
        Map.empty Map.empty)
       \<lparr>input_set := Some \<lparr>nrows = 2, cols = [[Num 1, Num 3]]\<rparr>,
        target_set := Some \<lparr>nrows = 2, cols = [[Num 10, Num 20]]\<rparr>,
        nan_behaviour := Some ''ignore''\<rparr>"

text \<open>An object with a continuous target field and no input field.\<close>

definition target_only_scenario :: mls where
  "target_only_scenario =
     (init_attributes ''f'' [(''y'', ''target_continuous'')] Map.empty Map.empty)
       \<lparr>input_set := Some \<lparr>nrows = 2, cols = []\<rparr>,
        target_set := Some \<lparr>nrows = 2, cols = [[Num 10, Num 20]]\<rparr>,
        nan_behaviour := Some ''ignore''\<rparr>"

text \<open>Every sequence of the first dictionary is a prefix of its sequence in the second.\<close>

definition dict_extends :: "(string \<rightharpoonup> string list) \<Rightarrow> (string \<rightharpoonup> string list) \<Rightarrow> bool" where
  "dict_extends cd cd' = (\<forall>f vs. cd f = Some vs \<longrightarrow> (\<exists>ws. cd' f = Some (vs @ ws)))"

text \<open>A record of a second file, with a category that the first file did not have.\<close>

definition second_row :: csv_row where
  "second_row = [''a'' \<mapsto> ''2.5'', ''b'' \<mapsto> ''z'']"

text \<open>The branch of the loop of \<open>_normalize\<close> that scales the column of field \<open>f\<close> on a side:
  the \<open>if\<close> of line 158 for the input side, the \<open>elif\<close> of line 171 for the target side.\<close>

definition scaled_on :: "side \<Rightarrow> mls \<Rightarrow> string \<Rightarrow> bool" where
  "scaled_on side self f =
     (case side of
        Input \<Rightarrow> map_of (input_features self) f = Some ''continuous''
      | Target \<Rightarrow> map_of (input_features self) f \<noteq> Some ''continuous''
                  \<and> map_of (target_features self) f = Some ''target_continuous'')"

text \<open>Column \<open>c\<close> of the matrix of a side, if there is a matrix.\<close>

definition column_at :: "side \<Rightarrow> nat \<Rightarrow> mls \<Rightarrow> npfloat list option" where
  "column_at side c self = map_option (\<lambda>a. cols a ! c) (get_set side self)"

text \<open>The object of \<open>stats_scenario\<close> with statistics supplied for both fields.\<close>

definition supplied_scenario :: mls where
  "supplied_scenario =
     stats_scenario\<lparr>norm_dict := [''x'' \<mapsto> \<lparr>mean = Num 1, std = Num 2\<rparr>,
                                    ''y'' \<mapsto> \<lparr>mean = Num 10, std = Num 10\<rparr>]\<rparr>"


text \<open>The number of columns the specification gives a categorical field with \<open>k\<close>
  categories.\<close>

definition block_width :: "nat \<Rightarrow> nat" where
  "block_width k = (if k \<le> 2 then 1 else k)"

text \<open>The number of columns of a field in the final matrix: \<open>block_width\<close> of the length of
  its sequence in the dictionary for a categorical field, 1 for any other field.\<close>

definition field_width :: "(string \<rightharpoonup> string list) \<Rightarrow> string \<Rightarrow> string \<times> string \<Rightarrow> nat" where
  "field_width cd class_kind = (\<lambda>(f, k).
     if k = class_kind
     then (case cd f of None \<Rightarrow> 0 | Some classes \<Rightarrow> block_width (length classes))
     else 1)"

text \<open>The columns that stand for a field in the final matrix, given its column in the
  matrix before expansion: the columns \<open>_hot_encode\<close> returns for a categorical field, the
  column itself for any other field.\<close>

definition field_block :: "(string \<rightharpoonup> string list) \<Rightarrow> string
    \<Rightarrow> (string \<times> string) \<times> npfloat list \<Rightarrow> npfloat list list" where
  "field_block cd class_kind = (\<lambda>((f, k), col).
     if k = class_kind
     then (case cd f of
             None \<Rightarrow> []
           | Some classes \<Rightarrow>
               (case hot_encode (map astype_int col) (Some (int (length classes))) of
                  Inl e \<Rightarrow> []
                | Inr enc \<Rightarrow> cols enc))
     else [col])"

text \<open>An object before \<open>_encode_classes\<close>: a categorical field with three categories, a
  continuous field, a categorical field with two categories, and a categorical target with
  two categories; three records.\<close>

definition encode_scenario :: mls where
  "encode_scenario =
     (init_attributes ''f''
        [(''p'', ''class''), (''a'', ''continuous''), (''e'', ''class''), (''s'', ''target_class'')]
        [''p'' \<mapsto> [''1'', ''2'', ''3''], ''e'' \<mapsto> [''S'', ''C''], ''s'' \<mapsto> [''0'', ''1'']]
        Map.empty)
       \<lparr>input_set := Some \<lparr>nrows = 3, cols = [[Num 0, Num 2, Num 1], [Num 5, Num 6, Num 7],
                                                 [Num 0, Num 1, Num 0]]\<rparr>,
        target_set := Some \<lparr>nrows = 3, cols = [[Num 0, Num 1, Num 1]]\<rparr>,
        nan_behaviour := Some ''ignore''\<rparr>"

text \<open>A file of three records for the schema of \<open>encode_scenario\<close>.\<close>

definition three_rows :: "csv_row list" where
  "three_rows =
     [[''p'' \<mapsto> ''1'', ''a'' \<mapsto> ''5'', ''e'' \<mapsto> ''S'', ''s'' \<mapsto> ''0''],
      [''p'' \<mapsto> ''3'', ''a'' \<mapsto> ''6'', ''e'' \<mapsto> ''C'', ''s'' \<mapsto> ''1''],
      [''p'' \<mapsto> ''2'', ''a'' \<mapsto> ''7'', ''e'' \<mapsto> ''S'', ''s'' \<mapsto> ''1'']]"

text \<open>An object on which \<open>_construct_matrices\<close> runs through: statistics are supplied for the
  continuous field and the policy is set.\<close>

definition pipeline_scenario :: mls where
  "pipeline_scenario =
     (init_attributes ''f''
        [(''p'', ''class''), (''a'', ''continuous''), (''e'', ''class''), (''s'', ''target_class'')]
        Map.empty [''a'' \<mapsto> \<lparr>mean = Num 5, std = Num 1\<rparr>])
       \<lparr>nan_behaviour := Some ''ignore''\<rparr>"

text \<open>The construction of the second file on the dictionary of the first.\<close>

definition second_run :: "mls \<times> error option" where
  "second_run = init (test_env [''f'' \<mapsto> [second_row]]) ''f''
     [(''a'', ''continuous''), (''b'', ''class'')] [''b'' \<mapsto> [''x'', ''y'']] Map.empty ''ignore''"

text \<open>A construction whose caller supplies the statistics of its one continuous field: the
  entry (1, 2) for field \<open>a\<close>, and a file with the one value 3 for it.\<close>

definition supplied_run :: "mls \<times> error option" where
  "supplied_run = init (test_env [''f'' \<mapsto> [[''a'' \<mapsto> ''3'']]]) ''f'' [(''a'', ''continuous'')]
     Map.empty [''a'' \<mapsto> \<lparr>mean = Num 1, std = Num 2\<rparr>] ''ignore''"

text \<open>A construction over the file \<open>three_rows\<close>, and an object for a file that has a header
  and no record.\<close>

definition three_rows_run :: "mls \<times> error option" where
  "three_rows_run = init (test_env [''f'' \<mapsto> three_rows]) ''f''
     [(''p'', ''class''), (''a'', ''continuous''), (''e'', ''class''), (''s'', ''target_class'')]
     Map.empty Map.empty ''ignore''"

definition no_record_scenario :: mls where
  "no_record_scenario =
     (init_attributes ''f'' [(''b'', ''class'')] Map.empty Map.empty)
       \<lparr>nan_behaviour := Some ''ignore''\<rparr>"

section \<open>Properties\<close>

lemma for_each_invariant:
  assumes "P s" and "\<And>x s. x \<in> set xs \<Longrightarrow> P s \<Longrightarrow> P (fst (body x s))"
  shows "P (fst (for_each body xs s))"
  using assms
proof (induction xs arbitrary: s)
  case Nil
  then show ?case by simp
next
  case (Cons x xs)
  have step: "P (fst (body x s))" using Cons.prems by simp
  show ?case
  proof (cases "body x s")
    case (Pair s' err)
    with step have "P s'" by simp
    show ?thesis
    proof (cases err)
      case None
      with Pair \<open>P s'\<close> Cons show ?thesis by simp
    next
      case (Some e)
      with Pair \<open>P s'\<close> show ?thesis by simp
    qed
  qed
qed

lemma for_each_no_error:
  assumes "P s"
    and "\<And>x s. x \<in> set xs \<Longrightarrow> P s \<Longrightarrow> P (fst (body x s)) \<and> snd (body x s) = None"
  shows "snd (for_each body xs s) = None \<and> P (fst (for_each body xs s))"
  using assms
proof (induction xs arbitrary: s)
  case Nil
  then show ?case by simp
next
  case (Cons x xs)
  have step: "P (fst (body x s)) \<and> snd (body x s) = None" using Cons.prems by simp
  then obtain s' where b: "body x s = (s', None)" and "P s'"
    by (cases "body x s") auto
  then show ?case using Cons by simp
qed

lemma same_schema_refl: "same_schema a a"
  by (simp add: same_schema_def)

lemma same_schema_trans: "same_schema a b \<Longrightarrow> same_schema b c \<Longrightarrow> same_schema a c"
  by (simp add: same_schema_def)

lemma set_cell_schema: "same_schema self (fst (set_cell side self r c v))"
  by (cases side) (auto simp: set_cell_def same_schema_def split: option.splits sum.splits)

lemma store_float_schema: "same_schema self (fst (store_float e side r f s self))"
  using set_cell_schema
  by (auto simp: store_float_def column_index_def same_schema_refl split: option.splits)

lemma store_class_schema: "same_schema self (fst (store_class side r f s self))"
proof -
  obtain cd code where cc: "class_code (classDict self) f s = (cd, code)"
    by (cases "class_code (classDict self) f s")
  have a: "same_schema self (self\<lparr>classDict := cd\<rparr>)"
    by (simp add: same_schema_def)
  have b: "same_schema (self\<lparr>classDict := cd\<rparr>) (fst (set_cell side (self\<lparr>classDict := cd\<rparr>) r c v))" for c v
    by (rule set_cell_schema)
  show ?thesis
    using a b cc
    by (auto simp: store_class_def Let_def split: option.splits intro: same_schema_trans)
qed

lemma fill_cell_schema: "same_schema self (fst (fill_cell e r row f self))"
  by (simp add: fill_cell_def same_schema_refl store_float_schema store_class_schema
      split: option.splits)

lemma fill_row_schema: "same_schema self (fst (fill_row e rr self))"
proof -
  obtain r row where rr: "rr = (r, row)" by (cases rr)
  have "same_schema self (fst (for_each (fill_cell e r row) (map fst (features self)) self))"
    by (rule for_each_invariant [where P = "same_schema self"])
      (auto intro: same_schema_refl same_schema_trans fill_cell_schema)
  then show ?thesis by (simp add: fill_row_def rr)
qed

lemma fill_rows_schema: "same_schema self (fst (fill_rows e rows self))"
  unfolding fill_rows_def
  by (rule for_each_invariant [where P = "same_schema self"])
    (auto intro: same_schema_refl same_schema_trans fill_row_schema)

lemma normalize_unset: "nan_behaviour self = None \<Longrightarrow> normalize_mls self = (self, Some (AttributeError ''nan_behaviour''))"
  by (simp add: normalize_mls_def)

lemma construct_matrices_error:
  "snd (construct_matrices e self) =
     (case files e (csvFileName self) of
        None \<Rightarrow> Some (IOError (csvFileName self))
      | Some rows \<Rightarrow>
          (let self1 = self\<lparr>
                 input_set := Some (np_ndarray (uninit_input e) (length rows)
                                      (length (input_features self))),
                 target_set := Some (np_ndarray (uninit_target e) (length rows)
                                       (length (target_features self)))\<rparr>;
               r = fill_rows e rows self1
           in case snd r of
                Some err \<Rightarrow> Some err
              | None \<Rightarrow> (case nan_behaviour self of
                   None \<Rightarrow> Some (AttributeError ''nan_behaviour'')
                 | Some nb \<Rightarrow> snd (and_then (normalize_mls (fst r)) encode_classes))))"
proof (cases "files e (csvFileName self)")
  case None
  then show ?thesis by (simp add: construct_matrices_def get_csv_rowcount_def)
next
  case (Some rows)
  define self1 where "self1 = self\<lparr>
                 input_set := Some (np_ndarray (uninit_input e) (length rows)
                                      (length (input_features self))),
                 target_set := Some (np_ndarray (uninit_target e) (length rows)
                                       (length (target_features self)))\<rparr>"
  have fn: "csvFileName self1 = csvFileName self" by (simp add: self1_def)
  have "same_schema self1 (fst (fill_rows e rows self1))" by (rule fill_rows_schema)
  then have nb: "nan_behaviour (fst (fill_rows e rows self1)) = nan_behaviour self"
    by (simp add: same_schema_def self1_def)
  have cm: "construct_matrices e self =
      and_then (and_then (fill_rows e rows self1) normalize_mls) encode_classes"
    using Some fn by (simp add: construct_matrices_def get_csv_rowcount_def Let_def self1_def)
  show ?thesis
  proof (cases "snd (fill_rows e rows self1)")
    case (Some err)
    then show ?thesis
      using \<open>files e (csvFileName self) = Some rows\<close>
      by (simp add: cm and_then_def Let_def self1_def)
  next
    case None
    show ?thesis
    proof (cases "nan_behaviour self")
      case nbn: None
      then have "normalize_mls (fst (fill_rows e rows self1))
          = (fst (fill_rows e rows self1), Some (AttributeError ''nan_behaviour''))"
        using nb by (simp add: normalize_unset)
      then show ?thesis
        using None nbn \<open>files e (csvFileName self) = Some rows\<close>
        by (simp add: cm and_then_def Let_def self1_def)
    next
      case (Some nbv)
      then show ?thesis
        using None \<open>files e (csvFileName self) = Some rows\<close>
        by (simp add: cm and_then_def Let_def self1_def)
    qed
  qed
qed

lemma index_of_SomeD: "index_of xs x = Some i \<Longrightarrow> i < length xs \<and> xs ! i = x"
  by (induction xs arbitrary: i) (auto split: if_splits)

lemma index_of_in_set: "x \<in> set xs \<Longrightarrow> \<exists>i. index_of xs x = Some i"
  by (induction xs) auto

lemma set_cell_ok:
  assumes "shaped n self" "r < n" "c < length (side_features side self)"
  shows "snd (set_cell side self r c v) = None \<and> shaped n (fst (set_cell side self r c v))"
proof -
  from assms(1) obtain a where a: "get_set side self = Some a" "nrows a = n"
      "length (cols a) = length (side_features side self)"
    unfolding shaped_def by blast
  have "shaped n (put_set side (a\<lparr>cols := (cols a)[c := (cols a ! c)[r := v]]\<rparr>) self)"
    unfolding shaped_def
  proof
    fix sd
    from assms(1) obtain b where b: "get_set sd self = Some b" "nrows b = n"
      "length (cols b) = length (side_features sd self)"
      unfolding shaped_def by blast
    show "\<exists>a'. get_set sd (put_set side (a\<lparr>cols := (cols a)[c := (cols a ! c)[r := v]]\<rparr>) self) = Some a'
        \<and> nrows a' = n \<and> length (cols a') = length (side_features sd
             (put_set side (a\<lparr>cols := (cols a)[c := (cols a ! c)[r := v]]\<rparr>) self))"
      using a b by (cases side; cases sd) auto
  qed
  then show ?thesis
    using a assms(2,3) by (simp add: set_cell_def setitem_def)
qed

lemma store_float_ok:
  assumes "shaped n self" "r < n" "f \<in> fst ` set (side_features side self)"
    "s = [] \<or> pyfloat e s \<noteq> None"
  shows "snd (store_float e side r f s self) = None \<and> shaped n (fst (store_float e side r f s self))"
proof -
  from assms(3) obtain c where c: "index_of (map fst (side_features side self)) f = Some c"
    using index_of_in_set [of f "map fst (side_features side self)"] by auto
  then have "c < length (side_features side self)"
    using index_of_SomeD [OF c] by simp
  then show ?thesis
    using c assms set_cell_ok [OF assms(1,2)]
    by (auto simp: store_float_def column_index_def)
qed

lemma class_code_Some: "\<exists>cd k. class_code d f s = (cd, Some k)"
proof -
  define seen where "seen = (case d f of None \<Rightarrow> [] | Some vs \<Rightarrow> vs)"
  define seen' where "seen' = (if s \<in> set seen then seen else seen @ [s])"
  have "s \<in> set seen'" by (simp add: seen'_def)
  then obtain k where "index_of seen' s = Some k"
    using index_of_in_set by fastforce
  moreover have "class_code d f s = (d(f \<mapsto> seen'), index_of seen' s)"
    unfolding class_code_def seen'_def seen_def Let_def ..
  ultimately show ?thesis by simp
qed

lemma shaped_classDict: "shaped n self \<Longrightarrow> shaped n (self\<lparr>classDict := cd\<rparr>)"
  unfolding shaped_def
proof
  fix side assume h: "\<forall>side. \<exists>a. get_set side self = Some a \<and> nrows a = n
        \<and> length (cols a) = length (side_features side self)"
  then show "\<exists>a. get_set side (self\<lparr>classDict := cd\<rparr>) = Some a \<and> nrows a = n
        \<and> length (cols a) = length (side_features side (self\<lparr>classDict := cd\<rparr>))"
    using h [rule_format, of side] by (cases side) auto
qed

lemma store_class_ok:
  assumes "shaped n self" "r < n" "f \<in> fst ` set (side_features side self)"
  shows "snd (store_class side r f s self) = None \<and> shaped n (fst (store_class side r f s self))"
proof -
  obtain cd k where cc: "class_code (classDict self) f s = (cd, Some k)"
    using class_code_Some by blast
  let ?self = "self\<lparr>classDict := cd\<rparr>"
  have sf: "side_features side ?self = side_features side self" by (cases side) auto
  from assms(3) obtain c where c: "index_of (map fst (side_features side self)) f = Some c"
    using index_of_in_set [of f "map fst (side_features side self)"] by auto
  then have lt: "c < length (side_features side ?self)"
    using index_of_SomeD [OF c] sf by simp
  have "snd (set_cell side ?self r c (Num (real k))) = None
      \<and> shaped n (fst (set_cell side ?self r c (Num (real k))))"
    by (rule set_cell_ok [OF shaped_classDict [OF assms(1)] assms(2) lt])
  then show ?thesis
    using cc c sf by (simp add: store_class_def column_index_def)
qed

lemma fill_cell_ok:
  assumes "shaped n self" "classified self" "r < n" "f \<in> fst ` set (features self)"
    "cell_parses e (features self) row f"
  shows "snd (fill_cell e r row f self) = None \<and> shaped n (fst (fill_cell e r row f self))"
proof (cases "row f")
  case None
  then show ?thesis using assms(1) by (simp add: fill_cell_def)
next
  case (Some s)
  from assms(4) obtain kind where k: "map_of (features self) f = Some kind"
    by (metis domD dom_map_of_conv_image_fst)
  have inp: "kind = ''continuous'' \<or> kind = ''class'' \<Longrightarrow> f \<in> fst ` set (side_features Input self)"
    using assms(2) k unfolding classified_def by auto
  have tgt: "kind = ''target_continuous'' \<or> kind = ''target_class''
      \<Longrightarrow> f \<in> fst ` set (side_features Target self)"
    using assms(2) k unfolding classified_def by auto
  have ps: "kind = ''continuous'' \<or> kind = ''target_continuous'' \<Longrightarrow> s = [] \<or> pyfloat e s \<noteq> None"
    using assms(5) k Some by (auto simp: cell_parses_def)
  show ?thesis
    using Some k inp tgt ps assms(1)
      store_float_ok [OF assms(1) assms(3), of f _ s e]
      store_class_ok [OF assms(1) assms(3), of f _ s]
    by (simp add: fill_cell_def)
qed

lemma classified_schema: "same_schema a b \<Longrightarrow> classified a \<Longrightarrow> classified b"
  by (simp add: same_schema_def classified_def)

lemma fill_row_ok:
  assumes "shaped n self" "classified self" "r < n"
    "\<forall>f \<in> fst ` set (features self). cell_parses e (features self) row f"
  shows "snd (fill_row e (r, row) self) = None \<and> shaped n (fst (fill_row e (r, row) self))"
proof -
  let ?P = "\<lambda>s. shaped n s \<and> same_schema self s"
  have "snd (for_each (fill_cell e r row) (map fst (features self)) self) = None
      \<and> ?P (fst (for_each (fill_cell e r row) (map fst (features self)) self))"
  proof (rule for_each_no_error [where P = ?P])
    show "?P self" using assms(1) by (simp add: same_schema_refl)
  next
    fix f s
    assume f: "f \<in> set (map fst (features self))" and s: "?P s"
    then have fs: "features s = features self" by (simp add: same_schema_def)
    have "snd (fill_cell e r row f s) = None \<and> shaped n (fst (fill_cell e r row f s))"
      using f s assms(2-4) fs
      by (intro fill_cell_ok) (auto intro: classified_schema)
    moreover have "same_schema self (fst (fill_cell e r row f s))"
      using s fill_cell_schema [of s e r row f] by (blast intro: same_schema_trans)
    ultimately show "?P (fst (fill_cell e r row f s)) \<and> snd (fill_cell e r row f s) = None"
      by simp
  qed
  then show ?thesis by (simp add: fill_row_def)
qed

lemma fill_rows_ok:
  assumes "shaped (length rows) self" "classified self"
    "\<forall>row \<in> set rows. \<forall>f \<in> fst ` set (features self). cell_parses e (features self) row f"
  shows "snd (fill_rows e rows self) = None"
proof -
  let ?P = "\<lambda>s. shaped (length rows) s \<and> same_schema self s"
  have "snd (for_each (fill_row e) (enumerate 0 rows) self) = None
      \<and> ?P (fst (for_each (fill_row e) (enumerate 0 rows) self))"
  proof (rule for_each_no_error [where P = ?P])
    show "?P self" using assms(1) by (simp add: same_schema_refl)
  next
    fix x s
    assume x: "x \<in> set (enumerate 0 rows)" and s: "?P s"
    obtain r row where rr: "x = (r, row)" by (cases x)
    with x have r: "r < length rows" and row: "row \<in> set rows"
      by (auto simp: in_set_enumerate_eq)
    have fs: "features s = features self" using s by (simp add: same_schema_def)
    have "snd (fill_row e (r, row) s) = None \<and> shaped (length rows) (fst (fill_row e (r, row) s))"
      using s r row assms(2,3) fs
      by (intro fill_row_ok) (auto intro: classified_schema)
    moreover have "same_schema self (fst (fill_row e (r, row) s))"
      using s fill_row_schema [of s e "(r, row)"] by (blast intro: same_schema_trans)
    ultimately show "?P (fst (fill_row e x s)) \<and> snd (fill_row e x s) = None"
      by (simp add: rr)
  qed
  then show ?thesis by (simp add: fill_rows_def)
qed

lemma not_target_continuous: "\<not> str_contains ''target'' ''continuous''"
  by simp

lemma not_target_class: "\<not> str_contains ''target'' ''class''"
  by simp

lemma target_target_continuous: "str_contains ''target'' ''target_continuous''"
  by simp

lemma target_target_class: "str_contains ''target'' ''target_class''"
  by simp

lemma map_of_filter_in:
  assumes "map_of (filter P xs) f = Some k" "Q (f, k)"
  shows "f \<in> fst ` set (filter (\<lambda>x. P x \<and> Q x) xs)"
proof -
  from assms(1) have "(f, k) \<in> set (filter P xs)" by (rule map_of_SomeD)
  with assms(2) have "(f, k) \<in> set (filter (\<lambda>x. P x \<and> Q x) xs)" by simp
  then show ?thesis by force
qed

lemma classified_init: "classified (init_attributes name feats cd nm)"
  unfolding classified_def
proof (intro allI conjI impI)
  fix f
  let ?P = "\<lambda>(f, k). k \<noteq> ''ignore''"
  let ?self = "init_attributes name feats cd nm"
  have inp: "input_features ?self
      = filter (\<lambda>x. ?P x \<and> (\<lambda>(f, k). \<not> str_contains ''target'' k) x) feats"
    by (simp add: init_attributes_def case_prod_unfold)
  have tgt: "target_features ?self
      = filter (\<lambda>x. ?P x \<and> (\<lambda>(f, k). str_contains ''target'' k) x) feats"
    by (simp add: init_attributes_def case_prod_unfold)
  have fs: "features ?self = filter ?P feats" by (simp add: init_attributes_def)
  {
    assume "map_of (features ?self) f = Some ''continuous'' \<or> map_of (features ?self) f = Some ''class''"
    then show "f \<in> fst ` set (input_features ?self)"
      unfolding inp fs
      using not_target_continuous not_target_class
      by (elim disjE) (rule map_of_filter_in, assumption, simp)+
  }
  {
    assume "map_of (features ?self) f = Some ''target_continuous''
        \<or> map_of (features ?self) f = Some ''target_class''"
    then show "f \<in> fst ` set (target_features ?self)"
      unfolding tgt fs
      using target_target_continuous target_target_class
      by (elim disjE) (rule map_of_filter_in, assumption, simp)+
  }
qed

lemma shaped_allocated: "shaped n (allocated e n self)"
  unfolding shaped_def
proof
  fix side
  show "\<exists>a. get_set side (allocated e n self) = Some a \<and> nrows a = n
      \<and> length (cols a) = length (side_features side (allocated e n self))"
    by (cases side) (simp_all add: allocated_def np_ndarray_def)
qed

lemma classified_allocated: "classified self \<Longrightarrow> classified (allocated e n self)"
  by (simp add: classified_def allocated_def)

lemma init_error:
  "snd (init e name feats cd nm nb) =
     (case files e name of
        None \<Rightarrow> Some (IOError name)
      | Some rows \<Rightarrow>
          (case snd (fill_rows e rows (allocated e (length rows) (init_attributes name feats cd nm))) of
             Some err \<Rightarrow> Some err
           | None \<Rightarrow> Some (AttributeError ''nan_behaviour'')))"
proof -
  let ?self = "init_attributes name feats cd nm"
  have nb: "nan_behaviour ?self = None" and fn: "csvFileName ?self = name"
    by (simp_all add: init_attributes_def)
  have c: "snd (construct_matrices e ?self) =
     (case files e name of
        None \<Rightarrow> Some (IOError name)
      | Some rows \<Rightarrow>
          (case snd (fill_rows e rows (allocated e (length rows) ?self)) of
             Some err \<Rightarrow> Some err
           | None \<Rightarrow> Some (AttributeError ''nan_behaviour'')))"
    unfolding construct_matrices_error
    by (simp add: nb fn Let_def allocated_def split: option.splits)
  then have "snd (construct_matrices e ?self) \<noteq> None"
    by (simp split: option.splits)
  then have "init e name feats cd nm nb = construct_matrices e ?self"
    by (auto simp: init_def and_then_def split: option.splits)
  then show ?thesis using c by simp
qed

section \<open>Construction never returns\<close>

text \<open>
  C1 (as amended). \<open>__init__\<close> raises on every call, so it never returns matrices. When the file
  cannot be opened the exception is the I/O error. When the file opens and no continuous cell
  makes \<open>float\<close> raise, the exception is the AttributeError of line 153, which reads
  \<open>self.nan_behaviour\<close> before line 64 assigns it.
\<close>

theorem init_never_returns:
  "snd (init e name feats cd nm nb) \<noteq> None
   \<and> (files e name = None \<longrightarrow> snd (init e name feats cd nm nb) = Some (IOError name))
   \<and> (source_parses e name feats
        \<longrightarrow> snd (init e name feats cd nm nb) = Some (AttributeError ''nan_behaviour''))"
proof (intro conjI impI)
  show "snd (init e name feats cd nm nb) \<noteq> None"
    by (simp add: init_error split: option.splits)
  show "snd (init e name feats cd nm nb) = Some (IOError name)" if "files e name = None"
    using that by (simp add: init_error)
  show "snd (init e name feats cd nm nb) = Some (AttributeError ''nan_behaviour'')"
    if sp: "source_parses e name feats"
  proof -
    let ?self = "init_attributes name feats cd nm"
    from sp obtain rows where rows: "files e name = Some rows"
      by (auto simp: source_parses_def Let_def split: option.splits)
    have fs: "features (allocated e (length rows) ?self) = filter (\<lambda>(f, k). k \<noteq> ''ignore'') feats"
      by (simp add: allocated_def init_attributes_def)
    have "snd (fill_rows e rows (allocated e (length rows) ?self)) = None"
    proof (rule fill_rows_ok)
      show "shaped (length rows) (allocated e (length rows) ?self)" by (rule shaped_allocated)
      show "classified (allocated e (length rows) ?self)"
        by (rule classified_allocated [OF classified_init])
      show "\<forall>row\<in>set rows. \<forall>f\<in>fst ` set (features (allocated e (length rows) ?self)).
          cell_parses e (features (allocated e (length rows) ?self)) row f"
        using sp rows unfolding fs
        by (auto simp: source_parses_def Let_def list_all_iff)
    qed
    then show ?thesis using rows by (simp add: init_error)
  qed
qed

lemmas run_defs =
  init_def and_then_def construct_matrices_def get_csv_rowcount_def test_env_def
  init_attributes_def fill_rows_def fill_row_def fill_cell_def store_float_def store_class_def
  class_code_def column_index_def set_cell_def setitem_def np_ndarray_def normalize_mls_def
  decimal_float_def unsigned_decimal_def digit_val_def

text \<open>C1, witness: a file with one record that parses, and a file that does not exist.\<close>

theorem init_never_returns_witness:
  "source_parses (test_env [''f'' \<mapsto> [good_row]]) ''f'' [(''a'', ''continuous''), (''b'', ''class'')]
   \<and> snd (init (test_env [''f'' \<mapsto> [good_row]]) ''f'' [(''a'', ''continuous''), (''b'', ''class'')]
             Map.empty Map.empty ''ignore'') = Some (AttributeError ''nan_behaviour'')
   \<and> files (test_env Map.empty) ''f'' = None
   \<and> snd (init (test_env Map.empty) ''f'' [(''a'', ''continuous'')]
             Map.empty Map.empty ''ignore'') = Some (IOError ''f'')"
proof -
  have sp: "source_parses (test_env [''f'' \<mapsto> [good_row]]) ''f'' [(''a'', ''continuous''), (''b'', ''class'')]"
    by (simp add: source_parses_def cell_parses_def test_env_def good_row_def
        decimal_float_def unsigned_decimal_def digit_val_def)
  have nf: "files (test_env Map.empty) ''f'' = None" by (simp add: test_env_def)
  show ?thesis
    using sp nf
      init_never_returns [of "test_env [''f'' \<mapsto> [good_row]]" "''f''"
         "[(''a'', ''continuous''), (''b'', ''class'')]" Map.empty Map.empty "''ignore''"]
      init_never_returns [of "test_env Map.empty" "''f''"
         "[(''a'', ''continuous'')]" Map.empty Map.empty "''ignore''"]
    by blast
qed

text \<open>C1 as stated fails: a continuous cell \<open>abc\<close> in the second record makes \<open>__init__\<close> raise
  the ValueError of \<open>float\<close>, not an AttributeError.\<close>

theorem init_value_error_counterexample:
  "snd (init (test_env [''f'' \<mapsto> [good_row, bad_row]]) ''f''
          [(''a'', ''continuous''), (''b'', ''class'')] Map.empty Map.empty ''ignore'')
     = Some (ValueError ''abc'')"
  by (simp add: run_defs good_row_def bad_row_def)

section \<open>The policy \<open>delete_row\<close>\<close>

text \<open>
  C2 (the code departs from the claim). With the policy \<open>delete_row\<close> in the attribute,
  \<open>_normalize\<close> removes no row: evaluating the name \<open>input_set\<close> on line 154 raises a
  NameError, and both matrices of the scenario still have their three rows.
\<close>

theorem normalize_delete_row_raises:
  "normalize_mls delete_row_scenario = (delete_row_scenario, Some (NameError ''input_set''))
   \<and> map_option nrows (input_set (fst (normalize_mls delete_row_scenario))) = Some 3
   \<and> map_option nrows (target_set (fst (normalize_mls delete_row_scenario))) = Some 3"
  by (simp add: normalize_mls_def delete_row_scenario_def)

section \<open>Continuous cells\<close>

lemma store_float_value:
  assumes "column_index side self f = Some c"
    and "get_set side self = Some a" and "r < nrows a" and "c < length (cols a)"
  shows "store_float e side r f s self =
     (if s = [] then (put_set side (store_cell a r c NaN) self, None)
      else case pyfloat e s of
             Some v \<Rightarrow> (put_set side (store_cell a r c v) self, None)
           | None \<Rightarrow> (self, Some (ValueError s)))"
  using assms
  by (simp add: store_float_def set_cell_def setitem_def store_cell_def split: option.splits)

text \<open>
  C10 (as amended). For a continuous field on the input side, or a target-continuous field on
  the target side, whose column exists: an empty string is stored as NaN, a string that \<open>float\<close>
  accepts is stored as its value, and any other string raises the ValueError of \<open>float\<close>,
  which holds the string and neither the record index nor the field name; nothing is stored
  then.
\<close>

theorem continuous_cell_stored:
  assumes "row f = Some s"
    and "side = Input \<and> map_of (features self) f = Some ''continuous''
         \<or> side = Target \<and> map_of (features self) f = Some ''target_continuous''"
    and "column_index side self f = Some c"
    and "get_set side self = Some a" and "r < nrows a" and "c < length (cols a)"
  shows "fill_cell e r row f self =
     (if s = [] then (put_set side (store_cell a r c NaN) self, None)
      else case pyfloat e s of
             Some v \<Rightarrow> (put_set side (store_cell a r c v) self, None)
           | None \<Rightarrow> (self, Some (ValueError s)))"
proof -
  have "fill_cell e r row f self = store_float e side r f s self"
    using assms(1,2) by (auto simp: fill_cell_def)
  then show ?thesis using store_float_value [OF assms(3-6)] by simp
qed

text \<open>C10, witness: the cell \<open>1.5\<close> of field \<open>a\<close> in the first record.\<close>

theorem continuous_cell_stored_witness:
  "fill_cell (test_env Map.empty) 0 good_row ''a''
     (allocated (test_env Map.empty) 1
        (init_attributes ''f'' [(''a'', ''continuous''), (''b'', ''class'')] Map.empty Map.empty))
   = (put_set Input (store_cell \<lparr>nrows = 1, cols = [[Num 0], [Num 0]]\<rparr> 0 0 (Num (3 / 2)))
        (allocated (test_env Map.empty) 1
           (init_attributes ''f'' [(''a'', ''continuous''), (''b'', ''class'')] Map.empty Map.empty)),
      None)"
  using continuous_cell_stored [of good_row "''a''" "''1.5''" Input
      "allocated (test_env Map.empty) 1
        (init_attributes ''f'' [(''a'', ''continuous''), (''b'', ''class'')] Map.empty Map.empty)"
      0 "\<lparr>nrows = 1, cols = [[Num 0], [Num 0]]\<rparr>" 0 "test_env Map.empty"]
  by (simp add: good_row_def allocated_def init_attributes_def column_index_def np_ndarray_def
      test_env_def decimal_float_def unsigned_decimal_def digit_val_def)

text \<open>C10 as stated fails: \<open>abc\<close> in record 0, field \<open>a\<close>, and \<open>abc\<close> in record 1, field \<open>b\<close>,
  raise the same exception, which therefore carries neither the record index nor the field
  name.\<close>

theorem parse_error_location_counterexample:
  "snd (init (test_env [''f'' \<mapsto> bad_first]) ''f'' two_continuous Map.empty Map.empty ''ignore'')
     = Some (ValueError ''abc'')
   \<and> snd (init (test_env [''f'' \<mapsto> bad_later]) ''f'' two_continuous Map.empty Map.empty ''ignore'')
     = Some (ValueError ''abc'')"
  by (simp add: run_defs two_continuous_def bad_first_def bad_later_def)

section \<open>Unrecognized kinds and policies\<close>

text \<open>
  C4 (as amended). A kind string outside the five recognized values is not rejected: the field
  stays in the schema, among the target fields when its kind contains \<open>target\<close> and among the
  input fields otherwise, and filling the matrices skips its cells without raising.
\<close>

theorem unknown_kind_not_rejected:
  assumes "(f, k) \<in> set feats" and "k \<notin> set FEATURETYPES"
  shows "(f, k) \<in> set (features (init_attributes name feats cd nm))
    \<and> (if str_contains ''target'' k
        then (f, k) \<in> set (target_features (init_attributes name feats cd nm))
        else (f, k) \<in> set (input_features (init_attributes name feats cd nm)))
    \<and> (map_of (features self) f = Some k \<longrightarrow> fill_cell e r row f self = (self, None))"
proof -
  from assms(2) have k: "k \<noteq> ''ignore''" "k \<noteq> ''continuous''" "k \<noteq> ''class''"
      "k \<noteq> ''target_continuous''" "k \<noteq> ''target_class''"
    unfolding FEATURETYPES_def by auto
  have 1: "(f, k) \<in> set (features (init_attributes name feats cd nm))"
    using assms(1) k(1) by (simp add: init_attributes_def)
  have 2: "if str_contains ''target'' k
        then (f, k) \<in> set (target_features (init_attributes name feats cd nm))
        else (f, k) \<in> set (input_features (init_attributes name feats cd nm))"
    using assms(1) k(1) by (simp add: init_attributes_def)
  have 3: "fill_cell e r row f self = (self, None)" if "map_of (features self) f = Some k"
    using that k by (simp add: fill_cell_def split: option.splits)
  from 1 2 3 show ?thesis by blast
qed

text \<open>C4, witness: the field \<open>a\<close> of kind \<open>bogus\<close>.\<close>

theorem unknown_kind_not_rejected_witness:
  "(''a'', ''bogus'') \<in> set bogus_schema \<and> ''bogus'' \<notin> set FEATURETYPES
   \<and> (''a'', ''bogus'') \<in> set (input_features (init_attributes ''f'' bogus_schema Map.empty Map.empty))
   \<and> fill_cell (test_env Map.empty) 0 good_row ''a''
        (init_attributes ''f'' bogus_schema Map.empty Map.empty)
      = (init_attributes ''f'' bogus_schema Map.empty Map.empty, None)"
proof -
  have h: "(''a'', ''bogus'') \<in> set bogus_schema" "''bogus'' \<notin> set FEATURETYPES"
    by (simp_all add: bogus_schema_def FEATURETYPES_def)
  have m: "map_of (features (init_attributes ''f'' bogus_schema Map.empty Map.empty)) ''a'' = Some ''bogus''"
    by (simp add: init_attributes_def bogus_schema_def)
  show ?thesis
    using h m unknown_kind_not_rejected [OF h, of "''f''" Map.empty Map.empty
        "init_attributes ''f'' bogus_schema Map.empty Map.empty" "test_env Map.empty" 0 good_row]
    by simp
qed

text \<open>C4 as stated fails: with the kind \<open>bogus\<close>, \<open>__init__\<close> raises the AttributeError it raises
  for every schema, and \<open>_construct_matrices\<close> on an object whose \<open>nan_behaviour\<close> is set
  returns without any exception.\<close>

theorem unknown_kind_counterexample:
  "snd (init (test_env [''f'' \<mapsto> [good_row]]) ''f'' bogus_schema Map.empty Map.empty ''ignore'')
     = Some (AttributeError ''nan_behaviour'')
   \<and> snd (construct_matrices (test_env [''f'' \<mapsto> [good_row]])
            ((init_attributes ''f'' bogus_schema Map.empty Map.empty)\<lparr>nan_behaviour := Some ''ignore''\<rparr>))
     = None"
  by (simp add: run_defs bogus_schema_def good_row_def normalize_feature_def
      encode_classes_def encode_side_def encode_feature_def)

lemma for_each_commute:
  assumes "\<And>x s. x \<in> set xs \<Longrightarrow> body x (g s) = (g (fst (body x s)), snd (body x s))"
  shows "for_each body xs (g s) = (g (fst (for_each body xs s)), snd (for_each body xs s))"
  using assms
proof (induction xs arbitrary: s)
  case Nil
  then show ?case by simp
next
  case (Cons x xs)
  have b: "body x (g s) = (g (fst (body x s)), snd (body x s))" using Cons.prems by simp
  show ?case
  proof (cases "body x s")
    case (Pair s' err)
    show ?thesis
    proof (cases err)
      case None
      then show ?thesis using Pair b Cons by simp
    next
      case (Some e)
      then show ?thesis using Pair b by simp
    qed
  qed
qed

lemma set_column_nb:
  "set_column side (self\<lparr>nan_behaviour := x\<rparr>) c col =
     (fst (set_column side self c col)\<lparr>nan_behaviour := x\<rparr>, snd (set_column side self c col))"
  by (cases side) (simp_all add: set_column_def split: option.splits)

lemma get_column_nb: "get_column side (self\<lparr>nan_behaviour := x\<rparr>) c = get_column side self c"
  by (cases side) (simp_all add: get_column_def)

lemma column_index_nb: "column_index side (self\<lparr>nan_behaviour := x\<rparr>) f = column_index side self f"
  by (cases side) (simp_all add: column_index_def)

lemma compute_stats_nb:
  "compute_stats ss f c (self\<lparr>nan_behaviour := x\<rparr>) =
     map_sum id (\<lambda>s. s\<lparr>nan_behaviour := x\<rparr>) (compute_stats ss f c self)"
  by (simp add: compute_stats_def get_column_nb split: sum.splits)

lemma apply_stats_nb:
  "apply_stats side f c (self\<lparr>nan_behaviour := x\<rparr>) =
     (fst (apply_stats side f c self)\<lparr>nan_behaviour := x\<rparr>, snd (apply_stats side f c self))"
  by (simp add: apply_stats_def get_column_nb set_column_nb split: option.splits sum.splits)

lemma normalize_column_nb:
  "normalize_column side ss f (self\<lparr>nan_behaviour := x\<rparr>) =
     (fst (normalize_column side ss f self)\<lparr>nan_behaviour := x\<rparr>,
      snd (normalize_column side ss f self))"
proof (cases "column_index side self f")
  case None
  then show ?thesis by (simp add: normalize_column_def column_index_nb)
next
  case (Some c)
  show ?thesis
  proof (cases "compute_stats ss f c self")
    case (Inl e)
    then show ?thesis
      using Some by (simp add: normalize_column_def column_index_nb compute_stats_nb)
  next
    case (Inr s')
    then show ?thesis
      using Some apply_stats_nb [where self = s' and side = side and f = f and c = c and x = x]
      by (simp add: normalize_column_def column_index_nb compute_stats_nb)
  qed
qed

lemma normalize_feature_nb:
  "normalize_feature f (self\<lparr>nan_behaviour := x\<rparr>) =
     (fst (normalize_feature f self)\<lparr>nan_behaviour := x\<rparr>, snd (normalize_feature f self))"
  by (simp add: normalize_feature_def normalize_column_nb)

lemma normalize_loop_nb:
  "for_each normalize_feature fs (self\<lparr>nan_behaviour := x\<rparr>) =
     (fst (for_each normalize_feature fs self)\<lparr>nan_behaviour := x\<rparr>,
      snd (for_each normalize_feature fs self))"
  by (rule for_each_commute [where g = "\<lambda>s. s\<lparr>nan_behaviour := x\<rparr>"]) (rule normalize_feature_nb)

lemma normalize_mls_other_policy:
  assumes "nb \<noteq> ''delete_row''"
  shows "normalize_mls (self\<lparr>nan_behaviour := Some nb\<rparr>) =
     (fst (normalize_mls (self\<lparr>nan_behaviour := Some ''ignore''\<rparr>))\<lparr>nan_behaviour := Some nb\<rparr>,
      snd (normalize_mls (self\<lparr>nan_behaviour := Some ''ignore''\<rparr>)))"
  using assms by (simp add: normalize_mls_def normalize_loop_nb)

lemma construct_init_raises: "snd (construct_matrices e (init_attributes name feats cd nm)) \<noteq> None"
  unfolding construct_matrices_error
  by (simp add: init_attributes_def Let_def split: option.splits)

lemma init_is_construct:
  "init e name feats cd nm nb = construct_matrices e (init_attributes name feats cd nm)"
  using construct_init_raises [of e name feats cd nm]
  by (auto simp: init_def and_then_def split: option.splits)

text \<open>
  C5 (as amended). The NaN policy is never validated and no policy makes \<open>_normalize\<close> raise
  an error of its own for being unsupported: \<open>_normalize\<close> treats every policy other than
  \<open>delete_row\<close> exactly as it treats \<open>ignore\<close>.
\<close>

theorem nan_policy_not_validated:
  "nb \<noteq> ''delete_row'' \<longrightarrow>
     normalize_mls (self\<lparr>nan_behaviour := Some nb\<rparr>) =
       (fst (normalize_mls (self\<lparr>nan_behaviour := Some ''ignore''\<rparr>))\<lparr>nan_behaviour := Some nb\<rparr>,
        snd (normalize_mls (self\<lparr>nan_behaviour := Some ''ignore''\<rparr>)))"
  using normalize_mls_other_policy by blast

text \<open>C5, witness: the policy \<open>median\<close>.\<close>

theorem nan_policy_not_validated_witness:
  "''median'' \<noteq> ''delete_row''
   \<and> normalize_mls (stats_scenario\<lparr>nan_behaviour := Some ''median''\<rparr>) =
       (fst (normalize_mls (stats_scenario\<lparr>nan_behaviour := Some ''ignore''\<rparr>))
          \<lparr>nan_behaviour := Some ''median''\<rparr>,
        snd (normalize_mls (stats_scenario\<lparr>nan_behaviour := Some ''ignore''\<rparr>)))"
  using nan_policy_not_validated [where nb = "''median''" and self = stats_scenario]
  by simp

lemma nanstd_1_3: "nanstd [Num 1, Num 3] = Num 1"
  by (simp add: nanstd_def np_sum_def np_sub_def)

lemma nanmean_1_3: "nanmean [Num 1, Num 3] = Num 2"
  by (simp add: nanmean_def np_sum_def)

lemma nanstd_m1_1: "nanstd [Num (- 1), Num 1] = Num 1"
  by (simp add: nanstd_def np_sum_def np_sub_def)

lemma nanmean_m1_1: "nanmean [Num (- 1), Num 1] = Num 0"
  by (simp add: nanmean_def np_sum_def)

lemmas normalize_run_defs =
  normalize_mls_def init_attributes_def normalize_feature_def
  normalize_column_def compute_stats_def apply_stats_def column_index_def get_column_def
  set_column_def scale_column_def np_sub_def

text \<open>C5 as stated fails: with the policy \<open>median\<close>, \<open>__init__\<close> raises the AttributeError it
  raises for every policy, and \<open>_normalize\<close> on an object that holds \<open>median\<close> returns without
  any exception.\<close>

theorem nan_policy_counterexample:
  "snd (init (test_env [''f'' \<mapsto> [good_row]]) ''f'' [(''a'', ''continuous''), (''b'', ''class'')]
          Map.empty Map.empty ''median'') = Some (AttributeError ''nan_behaviour'')
   \<and> snd (normalize_mls (stats_scenario\<lparr>nan_behaviour := Some ''median''\<rparr>)) = None"
proof -
  have "snd (normalize_mls (stats_scenario\<lparr>nan_behaviour := Some ''median''\<rparr>)) = None"
    by (simp add: stats_scenario_def normalize_run_defs nanmean_1_3 nanstd_1_3 nanmean_m1_1 nanstd_m1_1)
  moreover have "snd (init (test_env [''f'' \<mapsto> [good_row]]) ''f'' [(''a'', ''continuous''), (''b'', ''class'')]
          Map.empty Map.empty ''median'') = Some (AttributeError ''nan_behaviour'')"
    by (simp add: run_defs good_row_def)
  ultimately show ?thesis by simp
qed

section \<open>Statistics of a target field\<close>

lemma sqrt_25: "sqrt 25 = 5"
  using real_sqrt_abs [of 5] by simp

lemma nanmean_10_20: "nanmean [Num 10, Num 20] = Num 15"
  by (simp add: nanmean_def np_sum_def)

lemma nanstd_10_20: "nanstd [Num 10, Num 20] = Num 5"
  by (simp add: nanstd_def np_sum_def np_sub_def sqrt_25)

text \<open>
  C3 (the code departs from the claim). The target field \<open>y\<close> has the column \<open>[10, 20]\<close>, of
  mean 15 and standard deviation 5, and no statistics yet. \<open>_normalize\<close> stores for \<open>y\<close> the
  mean 0 and the standard deviation 1, which are those of column 0 of the input matrix (the
  field \<open>x\<close>, already scaled to \<open>[-1, 1]\<close>), and leaves the target column \<open>[10, 20]\<close> where its
  own statistics give \<open>[-1, 1]\<close>. With no input column at all, the same read raises an
  IndexError.
\<close>

theorem target_stats_from_input_matrix:
  "normalize_mls stats_scenario =
     (stats_scenario\<lparr>norm_dict := [''x'' \<mapsto> \<lparr>mean = Num 2, std = Num 1\<rparr>,
                                     ''y'' \<mapsto> \<lparr>mean = Num 0, std = Num 1\<rparr>],
         input_set := Some \<lparr>nrows = 2, cols = [[Num (- 1), Num 1]]\<rparr>,
         target_set := Some \<lparr>nrows = 2, cols = [[Num 10, Num 20]]\<rparr>\<rparr>, None)
   \<and> nanmean [Num 10, Num 20] = Num 15 \<and> nanstd [Num 10, Num 20] = Num 5
   \<and> scale_column (Num 15) (Num 5) [Num 10, Num 20] = [Num (- 1), Num 1]
   \<and> normalize_mls target_only_scenario = (target_only_scenario, Some IndexError)"
proof (intro conjI)
  show "normalize_mls stats_scenario =
     (stats_scenario\<lparr>norm_dict := [''x'' \<mapsto> \<lparr>mean = Num 2, std = Num 1\<rparr>,
                                     ''y'' \<mapsto> \<lparr>mean = Num 0, std = Num 1\<rparr>],
         input_set := Some \<lparr>nrows = 2, cols = [[Num (- 1), Num 1]]\<rparr>,
         target_set := Some \<lparr>nrows = 2, cols = [[Num 10, Num 20]]\<rparr>\<rparr>, None)"
    by (simp add: stats_scenario_def normalize_run_defs nanmean_1_3 nanstd_1_3
        nanmean_m1_1 nanstd_m1_1)
  show "nanmean [Num 10, Num 20] = Num 15" by (rule nanmean_10_20)
  show "nanstd [Num 10, Num 20] = Num 5" by (rule nanstd_10_20)
  show "scale_column (Num 15) (Num 5) [Num 10, Num 20] = [Num (- 1), Num 1]"
    by (simp add: scale_column_def np_sub_def)
  show "normalize_mls target_only_scenario = (target_only_scenario, Some IndexError)"
    by (simp add: target_only_scenario_def normalize_run_defs)
qed

section \<open>The category dictionary\<close>

lemma dict_extends_refl: "dict_extends cd cd"
  by (simp add: dict_extends_def)

lemma dict_extends_trans:
  assumes "dict_extends a b" "dict_extends b c"
  shows "dict_extends a c"
  unfolding dict_extends_def
proof (intro allI impI)
  fix f vs assume "a f = Some vs"
  with assms(1) obtain m1 where "b f = Some (vs @ m1)" unfolding dict_extends_def by blast
  with assms(2) obtain m2 where "c f = Some ((vs @ m1) @ m2)" unfolding dict_extends_def by blast
  then show "\<exists>ws. c f = Some (vs @ ws)" by simp
qed

lemma index_of_append: "v \<in> set vs \<Longrightarrow> index_of (vs @ ws) v = index_of vs v"
  by (induction vs) auto

lemma class_code_extends: "dict_extends cd (fst (class_code cd f v))"
  by (auto simp: dict_extends_def class_code_def Let_def)

lemma put_set_classDict: "classDict (put_set side a self) = classDict self"
  by (cases side) simp_all

lemma set_cell_classDict: "classDict (fst (set_cell side self r c v)) = classDict self"
  by (simp add: set_cell_def put_set_classDict split: option.splits sum.splits)

lemma store_float_classDict: "classDict (fst (store_float e side r f s self)) = classDict self"
  by (simp add: store_float_def set_cell_classDict split: option.splits)

lemma store_class_extends: "dict_extends (classDict self) (classDict (fst (store_class side r f s self)))"
proof -
  obtain cd code where cc: "class_code (classDict self) f s = (cd, code)"
    by (cases "class_code (classDict self) f s")
  then have "dict_extends (classDict self) cd"
    using class_code_extends [of "classDict self" f s] by simp
  moreover have "classDict (fst (store_class side r f s self)) = cd"
    using cc by (simp add: store_class_def Let_def set_cell_classDict split: option.splits)
  ultimately show ?thesis by simp
qed

lemma fill_cell_extends: "dict_extends (classDict self) (classDict (fst (fill_cell e r row f self)))"
  by (simp add: fill_cell_def dict_extends_refl store_float_classDict store_class_extends
      split: option.splits)

lemma fill_row_extends: "dict_extends (classDict self) (classDict (fst (fill_row e rr self)))"
proof -
  obtain r row where rr: "rr = (r, row)" by (cases rr)
  have "dict_extends (classDict self)
      (classDict (fst (for_each (fill_cell e r row) (map fst (features self)) self)))"
    by (rule for_each_invariant [where P = "\<lambda>s. dict_extends (classDict self) (classDict s)"])
      (auto intro: dict_extends_refl dict_extends_trans fill_cell_extends)
  then show ?thesis by (simp add: fill_row_def rr)
qed

lemma fill_rows_extends: "dict_extends (classDict self) (classDict (fst (fill_rows e rows self)))"
  unfolding fill_rows_def
  by (rule for_each_invariant [where P = "\<lambda>s. dict_extends (classDict self) (classDict s)"])
    (auto intro: dict_extends_refl dict_extends_trans fill_row_extends)

lemma set_column_classDict: "classDict (fst (set_column side self c col)) = classDict self"
  by (simp add: set_column_def put_set_classDict split: option.splits)

lemma apply_stats_classDict: "classDict (fst (apply_stats side f c self)) = classDict self"
  by (simp add: apply_stats_def set_column_classDict split: option.splits sum.splits)

lemma compute_stats_classDict: "compute_stats ss f c self = Inr s' \<Longrightarrow> classDict s' = classDict self"
  by (auto simp: compute_stats_def split: if_splits sum.splits)

lemma normalize_column_classDict: "classDict (fst (normalize_column side ss f self)) = classDict self"
proof (cases "column_index side self f")
  case None
  then show ?thesis by (simp add: normalize_column_def)
next
  case (Some c)
  show ?thesis
  proof (cases "compute_stats ss f c self")
    case (Inl e)
    then show ?thesis using Some by (simp add: normalize_column_def)
  next
    case (Inr s')
    then show ?thesis
      using Some compute_stats_classDict [OF Inr] apply_stats_classDict [of side f c s']
      by (simp add: normalize_column_def)
  qed
qed

lemma normalize_feature_classDict: "classDict (fst (normalize_feature f self)) = classDict self"
  by (simp add: normalize_feature_def normalize_column_classDict)

lemma normalize_mls_classDict: "classDict (fst (normalize_mls self)) = classDict self"
proof (cases "nan_behaviour self")
  case None
  then show ?thesis by (simp add: normalize_mls_def)
next
  case (Some nb)
  have "classDict (fst (for_each normalize_feature (map fst (features self)) self)) = classDict self"
    by (rule for_each_invariant [where P = "\<lambda>s. classDict s = classDict self"])
      (simp_all add: normalize_feature_classDict)
  then show ?thesis using Some by (simp add: normalize_mls_def)
qed

lemma encode_feature_classDict:
  "classDict (fst (fst (encode_feature side kind f (self, off)))) = classDict self"
  by (simp add: encode_feature_def Let_def put_set_classDict split: option.splits sum.splits)

lemma encode_side_classDict: "classDict (fst (encode_side side kind self)) = classDict self"
proof -
  have "classDict (fst (fst (for_each (encode_feature side kind)
          (map fst (side_features side self)) (self, 0)))) = classDict self"
    by (rule for_each_invariant [where P = "\<lambda>s. classDict (fst s) = classDict self"])
      (auto simp: encode_feature_classDict)
  then show ?thesis by (auto simp: encode_side_def split: prod.splits)
qed

lemma encode_classes_classDict: "classDict (fst (encode_classes self)) = classDict self"
  by (simp add: encode_classes_def and_then_def encode_side_classDict split: option.splits)

lemma construct_matrices_extends:
  "dict_extends (classDict self) (classDict (fst (construct_matrices e self)))"
proof (cases "files e (csvFileName self)")
  case None
  then show ?thesis
    by (simp add: construct_matrices_def get_csv_rowcount_def dict_extends_refl)
next
  case (Some rows)
  let ?s1 = "allocated e (length rows) self"
  have cm: "construct_matrices e self =
      and_then (and_then (fill_rows e rows ?s1) normalize_mls) encode_classes"
    using Some by (simp add: construct_matrices_def get_csv_rowcount_def Let_def allocated_def)
  have "classDict (fst (and_then (and_then (fill_rows e rows ?s1) normalize_mls) encode_classes))
      = classDict (fst (fill_rows e rows ?s1))"
    by (simp add: and_then_def normalize_mls_classDict encode_classes_classDict split: option.splits)
  moreover have "dict_extends (classDict ?s1) (classDict (fst (fill_rows e rows ?s1)))"
    by (rule fill_rows_extends)
  moreover have "classDict ?s1 = classDict self" by (simp add: allocated_def)
  ultimately show ?thesis by (simp add: cm)
qed

lemma index_of_snoc: "v \<notin> set vs \<Longrightarrow> index_of (vs @ [v]) v = Some (length vs)"
  by (induction vs) auto

lemma class_code_new:
  assumes "cd f = Some vs" "v \<notin> set vs"
  shows "class_code cd f v = (cd(f \<mapsto> vs @ [v]), Some (length vs))"
proof -
  have "index_of (vs @ [v]) v = Some (length vs)"
    using assms(2) by (rule index_of_snoc)
  then show ?thesis using assms by (simp add: class_code_def)
qed

lemma class_code_again:
  "class_code (fst (class_code cd f v)) f v = (fst (class_code cd f v), snd (class_code cd f v))"
proof -
  define seen where "seen = (case cd f of None \<Rightarrow> [] | Some vs \<Rightarrow> vs)"
  define seen' where "seen' = (if v \<in> set seen then seen else seen @ [v])"
  have cc: "class_code cd f v = (cd(f \<mapsto> seen'), index_of seen' v)"
    unfolding class_code_def seen'_def seen_def Let_def ..
  have "v \<in> set seen'" by (simp add: seen'_def)
  then have "class_code (cd(f \<mapsto> seen')) f v = (cd(f \<mapsto> seen'), index_of seen' v)"
    by (simp add: class_code_def)
  then show ?thesis by (simp add: cc)
qed

lemma store_class_value:
  assumes "column_index side self f = Some c"
    and "get_set side self = Some a" and "r < nrows a" and "c < length (cols a)"
  shows "\<exists>k. snd (class_code (classDict self) f s) = Some k
    \<and> store_class side r f s self =
        (put_set side (store_cell a r c (Num (real k)))
           (self\<lparr>classDict := fst (class_code (classDict self) f s)\<rparr>), None)"
proof -
  obtain cd k where cc: "class_code (classDict self) f s = (cd, Some k)"
    using class_code_Some by blast
  let ?self = "self\<lparr>classDict := cd\<rparr>"
  have ci: "column_index side ?self f = Some c"
    using assms(1) by (cases side) (simp_all add: column_index_def)
  have gs: "get_set side ?self = Some a"
    using assms(2) by (cases side) simp_all
  have "store_class side r f s self = (put_set side (store_cell a r c (Num (real k))) ?self, None)"
    using cc ci gs assms(3,4)
    by (simp add: store_class_def set_cell_def setitem_def store_cell_def)
  then show ?thesis using cc by simp
qed

text \<open>
  C7. The first value seen for a field gets the code 0; a value already in the dictionary
  gets the position it has, and the dictionary is left as it is; a value that is not in the
  dictionary is appended and gets the length the sequence had, and looking it up again gives
  that same code; the matrix cell of a categorical field receives the code. A run of
  \<open>_construct_matrices\<close>, or of \<open>__init__\<close>, on a dictionary only appends to each of its
  sequences, so that every value in it keeps its code, also when it is looked up in the
  dictionary the run leaves.
\<close>

theorem category_codes_stable:
  "(cd f = None \<or> cd f = Some [] \<longrightarrow> class_code cd f v = (cd(f \<mapsto> [v]), Some 0))
   \<and> (cd f = Some vs \<and> v \<in> set vs \<longrightarrow> class_code cd f v = (cd, index_of vs v))
   \<and> (cd f = Some vs \<and> v \<notin> set vs
        \<longrightarrow> class_code cd f v = (cd(f \<mapsto> vs @ [v]), Some (length vs)))
   \<and> class_code (fst (class_code cd f v)) f v
        = (fst (class_code cd f v), snd (class_code cd f v))
   \<and> (row f = Some v
       \<and> (side = Input \<and> map_of (features self) f = Some ''class''
           \<or> side = Target \<and> map_of (features self) f = Some ''target_class'')
       \<and> column_index side self f = Some c
       \<and> get_set side self = Some a \<and> r < nrows a \<and> c < length (cols a)
        \<longrightarrow> (\<exists>k. snd (class_code (classDict self) f v) = Some k
              \<and> fill_cell e r row f self =
                  (put_set side (store_cell a r c (Num (real k)))
                     (self\<lparr>classDict := fst (class_code (classDict self) f v)\<rparr>), None)))
   \<and> (classDict self f = Some vs \<longrightarrow>
        (\<exists>ws. classDict (fst (construct_matrices e self)) f = Some (vs @ ws)
           \<and> (\<forall>v \<in> set vs. index_of (vs @ ws) v = index_of vs v)))
   \<and> (cd f = Some vs \<longrightarrow>
        (\<exists>ws. classDict (fst (init e name feats cd nm nb)) f = Some (vs @ ws)
           \<and> (\<forall>v \<in> set vs. index_of (vs @ ws) v = index_of vs v
                  \<and> snd (class_code (classDict (fst (init e name feats cd nm nb))) f v)
                      = index_of vs v)))"
proof (intro conjI impI)
  show "class_code cd f v = (cd(f \<mapsto> [v]), Some 0)" if "cd f = None \<or> cd f = Some []"
    using that by (auto simp: class_code_def)
  show "class_code cd f v = (cd, index_of vs v)" if "cd f = Some vs \<and> v \<in> set vs"
    using that by (auto simp: class_code_def map_upd_triv)
  show "class_code cd f v = (cd(f \<mapsto> vs @ [v]), Some (length vs))"
    if "cd f = Some vs \<and> v \<notin> set vs"
    using that class_code_new [of cd f vs v] by simp
  show "class_code (fst (class_code cd f v)) f v
        = (fst (class_code cd f v), snd (class_code cd f v))"
    by (rule class_code_again)
  show "\<exists>k. snd (class_code (classDict self) f v) = Some k
              \<and> fill_cell e r row f self =
                  (put_set side (store_cell a r c (Num (real k)))
                     (self\<lparr>classDict := fst (class_code (classDict self) f v)\<rparr>), None)"
    if h: "row f = Some v
       \<and> (side = Input \<and> map_of (features self) f = Some ''class''
           \<or> side = Target \<and> map_of (features self) f = Some ''target_class'')
       \<and> column_index side self f = Some c
       \<and> get_set side self = Some a \<and> r < nrows a \<and> c < length (cols a)"
  proof -
    have "fill_cell e r row f self = store_class side r f v self"
      using h by (auto simp: fill_cell_def)
    moreover have "\<exists>k. snd (class_code (classDict self) f v) = Some k
        \<and> store_class side r f v self =
            (put_set side (store_cell a r c (Num (real k)))
               (self\<lparr>classDict := fst (class_code (classDict self) f v)\<rparr>), None)"
      using h by (intro store_class_value) simp_all
    ultimately show ?thesis by simp
  qed
  show "\<exists>ws. classDict (fst (construct_matrices e self)) f = Some (vs @ ws)
           \<and> (\<forall>v \<in> set vs. index_of (vs @ ws) v = index_of vs v)"
    if "classDict self f = Some vs"
    using that construct_matrices_extends [of self e]
    by (auto simp: dict_extends_def index_of_append)
  show "\<exists>ws. classDict (fst (init e name feats cd nm nb)) f = Some (vs @ ws)
           \<and> (\<forall>v \<in> set vs. index_of (vs @ ws) v = index_of vs v
                  \<and> snd (class_code (classDict (fst (init e name feats cd nm nb))) f v)
                      = index_of vs v)"
    if cdf: "cd f = Some vs"
  proof -
    have "classDict (init_attributes name feats cd nm) = cd" by (simp add: init_attributes_def)
    then obtain ws where ws: "classDict (fst (init e name feats cd nm nb)) f = Some (vs @ ws)"
      using cdf construct_matrices_extends [of "init_attributes name feats cd nm" e]
      by (auto simp: dict_extends_def init_is_construct)
    have "snd (class_code (classDict (fst (init e name feats cd nm nb))) f u) = index_of vs u"
      if "u \<in> set vs" for u
      using that ws by (simp add: class_code_def index_of_append)
    then show ?thesis using ws by (auto simp: index_of_append)
  qed
qed

lemma second_run_state:
  "classDict (fst second_run) = [''b'' \<mapsto> [''x'', ''y'', ''z'']]
   \<and> input_set (fst second_run) = Some \<lparr>nrows = 1, cols = [[Num (5 / 2)], [Num 2]]\<rparr>"
  by (simp add: second_run_def run_defs second_row_def)

text \<open>C7, witness: a second file that brings the new value \<open>z\<close> to a dictionary that
  already holds \<open>x\<close> and \<open>y\<close> for the field \<open>b\<close>; \<open>z\<close> gets the code 2, which is what the
  matrix holds, and \<open>x\<close> and \<open>y\<close> keep 0 and 1.\<close>

theorem category_codes_stable_witness:
  "class_code Map.empty ''b'' ''x'' = ([''b'' \<mapsto> [''x'']], Some 0)
   \<and> class_code [''b'' \<mapsto> [''x'', ''y'']] ''b'' ''y'' = ([''b'' \<mapsto> [''x'', ''y'']], Some 1)
   \<and> class_code [''b'' \<mapsto> [''x'', ''y'']] ''b'' ''z'' = ([''b'' \<mapsto> [''x'', ''y'', ''z'']], Some 2)
   \<and> class_code [''b'' \<mapsto> [''x'', ''y'', ''z'']] ''b'' ''z'' = ([''b'' \<mapsto> [''x'', ''y'', ''z'']], Some 2)
   \<and> fill_cell (test_env Map.empty) 0 second_row ''b''
        (allocated (test_env Map.empty) 1
           (init_attributes ''f'' [(''a'', ''continuous''), (''b'', ''class'')]
              [''b'' \<mapsto> [''x'', ''y'']] Map.empty))
      = (put_set Input (store_cell \<lparr>nrows = 1, cols = [[Num 0], [Num 0]]\<rparr> 0 1 (Num 2))
           ((allocated (test_env Map.empty) 1
              (init_attributes ''f'' [(''a'', ''continuous''), (''b'', ''class'')]
                 [''b'' \<mapsto> [''x'', ''y'']] Map.empty))
            \<lparr>classDict := [''b'' \<mapsto> [''x'', ''y'', ''z'']]\<rparr>), None)
   \<and> classDict (fst second_run) ''b'' = Some [''x'', ''y'', ''z'']
   \<and> snd (class_code (classDict (fst second_run)) ''b'' ''x'') = Some 0
   \<and> snd (class_code (classDict (fst second_run)) ''b'' ''y'') = Some 1
   \<and> map_option cols (input_set (fst second_run)) = Some [[Num (5 / 2)], [Num 2]]"
proof -
  note T = category_codes_stable
  have 1: "class_code Map.empty ''b'' ''x'' = ([''b'' \<mapsto> [''x'']], Some 0)"
    using T [where cd = Map.empty and f = "''b''" and v = "''x''", THEN conjunct1]
    by simp
  have 2: "class_code [''b'' \<mapsto> [''x'', ''y'']] ''b'' ''y'' = ([''b'' \<mapsto> [''x'', ''y'']], Some 1)"
    using T [where cd = "[''b'' \<mapsto> [''x'', ''y'']]" and f = "''b''"
        and v = "''y''" and vs = "[''x'', ''y'']", THEN conjunct2, THEN conjunct1]
    by simp
  have 3: "class_code [''b'' \<mapsto> [''x'', ''y'']] ''b'' ''z'' = ([''b'' \<mapsto> [''x'', ''y'', ''z'']], Some 2)"
    using T [where cd = "[''b'' \<mapsto> [''x'', ''y'']]" and f = "''b''"
        and v = "''z''" and vs = "[''x'', ''y'']", THEN conjunct2, THEN conjunct2, THEN conjunct1]
    by simp
  have 4: "class_code [''b'' \<mapsto> [''x'', ''y'', ''z'']] ''b'' ''z'' = ([''b'' \<mapsto> [''x'', ''y'', ''z'']], Some 2)"
    using T [where cd = "[''b'' \<mapsto> [''x'', ''y'']]" and f = "''b''" and v = "''z''",
        THEN conjunct2, THEN conjunct2, THEN conjunct2, THEN conjunct1] 3
    by simp
  let ?s = "allocated (test_env Map.empty) 1
           (init_attributes ''f'' [(''a'', ''continuous''), (''b'', ''class'')]
              [''b'' \<mapsto> [''x'', ''y'']] Map.empty)"
  have s: "classDict ?s = [''b'' \<mapsto> [''x'', ''y'']]"
      "map_of (features ?s) ''b'' = Some ''class''"
      "column_index Input ?s ''b'' = Some 1"
      "get_set Input ?s = Some \<lparr>nrows = 1, cols = [[Num 0], [Num 0]]\<rparr>"
      "second_row ''b'' = Some ''z''"
    by (simp_all add: allocated_def init_attributes_def column_index_def np_ndarray_def
        test_env_def second_row_def)
  have 5: "fill_cell (test_env Map.empty) 0 second_row ''b'' ?s
      = (put_set Input (store_cell \<lparr>nrows = 1, cols = [[Num 0], [Num 0]]\<rparr> 0 1 (Num 2))
           (?s\<lparr>classDict := [''b'' \<mapsto> [''x'', ''y'', ''z'']]\<rparr>), None)"
    using T [where row = second_row and f = "''b''" and v = "''z''" and side = Input
        and self = ?s and c = 1 and a = "\<lparr>nrows = 1, cols = [[Num 0], [Num 0]]\<rparr>" and r = 0
        and e = "test_env Map.empty",
        THEN conjunct2, THEN conjunct2, THEN conjunct2, THEN conjunct2, THEN conjunct1] s 3
    by auto
  have 6: "\<exists>ws. classDict (fst second_run) ''b'' = Some ([''x'', ''y''] @ ws)
      \<and> (\<forall>v \<in> set [''x'', ''y'']. index_of ([''x'', ''y''] @ ws) v = index_of [''x'', ''y''] v
            \<and> snd (class_code (classDict (fst second_run)) ''b'' v) = index_of [''x'', ''y''] v)"
    unfolding second_run_def
    using T [where cd = "[''b'' \<mapsto> [''x'', ''y'']]" and f = "''b''"
        and vs = "[''x'', ''y'']" and e = "test_env [''f'' \<mapsto> [second_row]]" and name = "''f''"
        and feats = "[(''a'', ''continuous''), (''b'', ''class'')]" and nm = Map.empty
        and nb = "''ignore''", THEN conjunct2, THEN conjunct2, THEN conjunct2,
        THEN conjunct2, THEN conjunct2, THEN conjunct2]
    by simp
  then have 7: "snd (class_code (classDict (fst second_run)) ''b'' ''x'') = Some 0"
      "snd (class_code (classDict (fst second_run)) ''b'' ''y'') = Some 1"
    by auto
  have 8: "classDict (fst second_run) ''b'' = Some [''x'', ''y'', ''z'']"
      "map_option cols (input_set (fst second_run)) = Some [[Num (5 / 2)], [Num 2]]"
    using second_run_state by simp_all
  from 1 2 3 4 5 7 8 show ?thesis by simp
qed

section \<open>Supplied statistics\<close>

lemma for_each_append:
  "for_each body (xs @ ys) s = and_then (for_each body xs s) (for_each body ys)"
proof (induction xs arbitrary: s)
  case Nil
  then show ?case by (simp add: and_then_def)
next
  case (Cons x xs)
  show ?case
  proof (cases "body x s")
    case (Pair s' err)
    then show ?thesis using Cons by (cases err) (simp_all add: and_then_def)
  qed
qed

lemma index_of_inj:
  assumes "index_of xs x = Some i" "index_of xs y = Some i"
  shows "x = y"
  using index_of_SomeD [OF assms(1)] index_of_SomeD [OF assms(2)] by simp

lemma put_set_frame:
  "side_features sd (put_set side a self) = side_features sd self"
  "norm_dict (put_set side a self) = norm_dict self"
  "features (put_set side a self) = features self"
  "nan_behaviour (put_set side a self) = nan_behaviour self"
  "get_set side (put_set side a self) = Some a"
  "sd \<noteq> side \<Longrightarrow> get_set sd (put_set side a self) = get_set sd self"
  by (cases side; cases sd; simp)+

lemma set_column_frame:
  "side_features sd (fst (set_column side self c col)) = side_features sd self"
  "norm_dict (fst (set_column side self c col)) = norm_dict self"
  "features (fst (set_column side self c col)) = features self"
  by (simp_all add: set_column_def put_set_frame split: option.splits)

lemma set_column_other:
  assumes "sd \<noteq> side \<or> c' \<noteq> c"
  shows "column_at sd c' (fst (set_column side self c col)) = column_at sd c' self"
proof (cases "sd = side")
  case True
  with assms have "c' \<noteq> c" by simp
  then show ?thesis
    using True by (auto simp: set_column_def column_at_def put_set_frame split: option.splits)
next
  case False
  then show ?thesis
    by (simp add: set_column_def column_at_def put_set_frame split: option.splits)
qed

lemma apply_stats_frame:
  "side_features sd (fst (apply_stats side g c self)) = side_features sd self"
  "norm_dict (fst (apply_stats side g c self)) = norm_dict self"
  "features (fst (apply_stats side g c self)) = features self"
  by (simp_all add: apply_stats_def set_column_frame split: option.splits sum.splits)

lemma apply_stats_other:
  assumes "sd \<noteq> side \<or> c' \<noteq> c"
  shows "column_at sd c' (fst (apply_stats side g c self)) = column_at sd c' self"
  using set_column_other [OF assms]
  by (simp add: apply_stats_def split: option.splits sum.splits)

lemma compute_stats_frame:
  assumes "compute_stats ss g c self = Inr s1"
  shows "side_features sd s1 = side_features sd self"
    and "features s1 = features self"
    and "get_set sd s1 = get_set sd self"
    and "g \<noteq> f \<Longrightarrow> norm_dict s1 f = norm_dict self f"
    and "norm_dict self g \<noteq> None \<Longrightarrow> s1 = self"
  using assms
  by (cases sd; auto simp: compute_stats_def split: if_splits sum.splits)+

lemma normalize_column_frame:
  "side_features sd (fst (normalize_column side ss g self)) = side_features sd self"
  "features (fst (normalize_column side ss g self)) = features self"
proof -
  have "side_features sd (fst (normalize_column side ss g self)) = side_features sd self
      \<and> features (fst (normalize_column side ss g self)) = features self"
  proof (cases "column_index side self g")
    case None
    then show ?thesis by (simp add: normalize_column_def)
  next
    case (Some c)
    show ?thesis
    proof (cases "compute_stats ss g c self")
      case (Inl e)
      then show ?thesis using Some by (simp add: normalize_column_def)
    next
      case (Inr s1)
      then show ?thesis
        using Some compute_stats_frame(1,2) [OF Inr] apply_stats_frame(1) [where side = side and g = g and c = c and self = s1 and sd = sd]
          apply_stats_frame(3) [where side = side and g = g and c = c and self = s1]
        by (simp add: normalize_column_def)
    qed
  qed
  then show "side_features sd (fst (normalize_column side ss g self)) = side_features sd self"
    and "features (fst (normalize_column side ss g self)) = features self"
    by simp_all
qed

lemma normalize_column_other:
  assumes "g \<noteq> f" "column_index sd self f = Some c'"
  shows "norm_dict (fst (normalize_column side ss g self)) f = norm_dict self f
    \<and> column_at sd c' (fst (normalize_column side ss g self)) = column_at sd c' self"
proof (cases "column_index side self g")
  case None
  then show ?thesis by (simp add: normalize_column_def)
next
  case (Some c)
  have ne: "sd \<noteq> side \<or> c' \<noteq> c"
  proof (cases "sd = side")
    case True
    then show ?thesis
      using assms Some index_of_inj [of "map fst (side_features side self)" g c f]
      by (auto simp: column_index_def)
  next
    case False
    then show ?thesis by simp
  qed
  show ?thesis
  proof (cases "compute_stats ss g c self")
    case (Inl e)
    then show ?thesis using Some by (simp add: normalize_column_def)
  next
    case (Inr s1)
    have "column_at sd c' s1 = column_at sd c' self"
      using compute_stats_frame(3) [OF Inr] by (simp add: column_at_def)
    then show ?thesis
      using Some Inr compute_stats_frame(4) [OF Inr assms(1)]
        apply_stats_frame(2) [where side = side and g = g and c = c and self = s1]
        apply_stats_other [OF ne, where g = g and self = s1]
      by (simp add: normalize_column_def)
  qed
qed

lemma normalize_feature_frame:
  "side_features sd (fst (normalize_feature g self)) = side_features sd self"
  "features (fst (normalize_feature g self)) = features self"
  by (simp_all add: normalize_feature_def normalize_column_frame)

lemma normalize_feature_other:
  assumes "g \<noteq> f" "column_index sd self f = Some c'"
  shows "norm_dict (fst (normalize_feature g self)) f = norm_dict self f
    \<and> column_at sd c' (fst (normalize_feature g self)) = column_at sd c' self"
  using normalize_column_other [OF assms]
  by (simp add: normalize_feature_def)

lemma normalize_column_keeps_entry:
  assumes "norm_dict self f = Some st"
  shows "norm_dict (fst (normalize_column side ss g self)) f = Some st"
proof (cases "column_index side self g")
  case None
  then show ?thesis using assms by (simp add: normalize_column_def)
next
  case (Some c)
  show ?thesis
  proof (cases "compute_stats ss g c self")
    case (Inl e)
    then show ?thesis using Some assms by (simp add: normalize_column_def)
  next
    case (Inr s1)
    have "norm_dict s1 f = Some st"
    proof (cases "g = f")
      case True
      then show ?thesis using compute_stats_frame(5) [OF Inr] assms by simp
    next
      case False
      then show ?thesis using compute_stats_frame(4) [OF Inr False] assms by simp
    qed
    then show ?thesis
      using Some Inr apply_stats_frame(2) [where side = side and g = g and c = c and self = s1]
      by (simp add: normalize_column_def)
  qed
qed

lemma normalize_feature_keeps_entry:
  assumes "norm_dict self f = Some st"
  shows "norm_dict (fst (normalize_feature g self)) f = Some st"
  using assms by (simp add: normalize_feature_def normalize_column_keeps_entry)

lemma normalize_mls_keeps_entry:
  assumes "norm_dict self f = Some st"
  shows "norm_dict (fst (normalize_mls self)) f = Some st"
proof (cases "nan_behaviour self")
  case None
  then show ?thesis using assms by (simp add: normalize_mls_def)
next
  case (Some nb)
  have "norm_dict (fst (for_each normalize_feature (map fst (features self)) self)) f = Some st"
    by (rule for_each_invariant [where P = "\<lambda>s. norm_dict s f = Some st"])
      (simp_all add: assms normalize_feature_keeps_entry)
  then show ?thesis using Some assms by (simp add: normalize_mls_def)
qed

lemma scaled_on_cong:
  assumes "\<And>sd. side_features sd s' = side_features sd s"
  shows "scaled_on side s' f = scaled_on side s f"
  using assms [of Input] assms [of Target] by (cases side) (simp_all add: scaled_on_def)

lemma column_index_cong:
  assumes "\<And>sd. side_features sd s' = side_features sd s"
  shows "column_index side s' f = column_index side s f"
  using assms [of side] by (simp add: column_index_def)

lemma normalize_loop_others:
  assumes "f \<notin> set gs" "column_index side s f = Some c"
  shows "(\<forall>sd. side_features sd (fst (for_each normalize_feature gs s)) = side_features sd s)
    \<and> norm_dict (fst (for_each normalize_feature gs s)) f = norm_dict s f
    \<and> column_at side c (fst (for_each normalize_feature gs s)) = column_at side c s"
proof (rule for_each_invariant [where P = "\<lambda>s'. (\<forall>sd. side_features sd s' = side_features sd s)
    \<and> norm_dict s' f = norm_dict s f \<and> column_at side c s' = column_at side c s"])
  show "(\<forall>sd. side_features sd s = side_features sd s) \<and> norm_dict s f = norm_dict s f
      \<and> column_at side c s = column_at side c s"
    by simp
next
  fix g s1
  assume g: "g \<in> set gs"
    and inv: "(\<forall>sd. side_features sd s1 = side_features sd s) \<and> norm_dict s1 f = norm_dict s f
        \<and> column_at side c s1 = column_at side c s"
  from g assms(1) have ne: "g \<noteq> f" by auto
  have ci: "column_index side s1 f = Some c"
    using inv assms(2) column_index_cong [of s1 s side f] by simp
  show "(\<forall>sd. side_features sd (fst (normalize_feature g s1)) = side_features sd s)
      \<and> norm_dict (fst (normalize_feature g s1)) f = norm_dict s f
      \<and> column_at side c (fst (normalize_feature g s1)) = column_at side c s"
    using inv normalize_feature_other [OF ne ci] normalize_feature_frame(1) [of _ g s1]
    by simp
qed

lemma normalize_feature_supplied:
  assumes "norm_dict s f = Some st" "scaled_on side s f" "column_index side s f = Some c"
    "snd (normalize_feature f s) = None"
  shows "column_at side c s \<noteq> None
    \<and> column_at side c (fst (normalize_feature f s))
        = map_option (scale_column (mean st) (std st)) (column_at side c s)"
proof -
  have nf: "normalize_feature f s = normalize_column side Input f s"
    using assms(2) by (cases side) (simp_all add: scaled_on_def normalize_feature_def)
  have cs: "compute_stats Input f c s = Inr s"
    using assms(1) by (simp add: compute_stats_def)
  have ap: "normalize_feature f s = apply_stats side f c s"
    using nf assms(3) cs by (simp add: normalize_column_def)
  with assms(4) have ok: "snd (apply_stats side f c s) = None" by simp
  from ok assms(1) obtain a where a: "get_set side s = Some a" "c < length (cols a)"
    by (auto simp: apply_stats_def get_column_def split: option.splits sum.splits if_splits)
  have "apply_stats side f c s
      = (put_set side (a\<lparr>cols := (cols a)[c := scale_column (mean st) (std st) (cols a ! c)]\<rparr>) s, None)"
    using a assms(1) by (simp add: apply_stats_def get_column_def set_column_def)
  then show ?thesis
    using a ap by (simp add: column_at_def put_set_frame)
qed

lemma normalize_loop_supplied:
  assumes "norm_dict s f = Some st" "scaled_on side s f" "column_index side s f = Some c"
    "distinct ks" "f \<in> set ks" "snd (for_each normalize_feature ks s) = None"
  shows "column_at side c s \<noteq> None
    \<and> column_at side c (fst (for_each normalize_feature ks s))
        = map_option (scale_column (mean st) (std st)) (column_at side c s)"
proof -
  from assms(5) obtain pre post where ks: "ks = pre @ f # post"
    by (auto dest: split_list)
  with assms(4) have fpre: "f \<notin> set pre" and fpost: "f \<notin> set post" by auto
  let ?r1 = "for_each normalize_feature pre s"
  let ?s1 = "fst ?r1"
  have split: "for_each normalize_feature ks s = and_then ?r1 (for_each normalize_feature (f # post))"
    unfolding ks by (rule for_each_append)
  have ok1: "snd ?r1 = None"
  proof (rule ccontr)
    assume "snd ?r1 \<noteq> None"
    then have "snd (and_then ?r1 (for_each normalize_feature (f # post))) \<noteq> None"
      by (auto simp: and_then_def)
    with assms(6) split show False by simp
  qed
  then have rest: "for_each normalize_feature ks s = for_each normalize_feature (f # post) ?s1"
    using split by (simp add: and_then_def)
  have inv1: "(\<forall>sd. side_features sd ?s1 = side_features sd s)
      \<and> norm_dict ?s1 f = norm_dict s f \<and> column_at side c ?s1 = column_at side c s"
    by (rule normalize_loop_others [OF fpre assms(3)])
  have nd1: "norm_dict ?s1 f = Some st" using inv1 assms(1) by simp
  have sc1: "scaled_on side ?s1 f" using inv1 assms(2) scaled_on_cong [of ?s1 s side f] by simp
  have ci1: "column_index side ?s1 f = Some c"
    using inv1 assms(3) column_index_cong [of ?s1 s side f] by simp
  let ?r2 = "normalize_feature f ?s1"
  let ?s2 = "fst ?r2"
  have ok2: "snd ?r2 = None"
  proof (cases ?r2)
    case (Pair s2 err)
    show ?thesis
    proof (cases err)
      case None
      then show ?thesis using Pair by simp
    next
      case (Some e)
      then have "snd (for_each normalize_feature (f # post) ?s1) = Some e"
        using Pair by simp
      with rest assms(6) show ?thesis by simp
    qed
  qed
  then have r2: "?r2 = (?s2, None)" by (metis prod.collapse)
  have fin: "for_each normalize_feature ks s = for_each normalize_feature post ?s2"
    using rest r2 by (metis (no_types, lifting) for_each.simps(2) old.prod.case option.simps(4))
  have step: "column_at side c ?s1 \<noteq> None
      \<and> column_at side c ?s2 = map_option (scale_column (mean st) (std st)) (column_at side c ?s1)"
    by (rule normalize_feature_supplied [OF nd1 sc1 ci1 ok2])
  have ci2: "column_index side ?s2 f = Some c"
    using ci1 normalize_feature_frame(1) [of _ f ?s1] column_index_cong [of ?s2 ?s1 side f] by simp
  have inv3: "column_at side c (fst (for_each normalize_feature post ?s2)) = column_at side c ?s2"
    using normalize_loop_others [OF fpost ci2] by simp
  show ?thesis using inv1 step inv3 fin by simp
qed

lemma encode_feature_norm:
  "norm_dict (fst (fst (encode_feature side kind f (self, off)))) = norm_dict self"
  by (simp add: encode_feature_def Let_def put_set_frame split: option.splits sum.splits)

lemma encode_side_norm: "norm_dict (fst (encode_side side kind self)) = norm_dict self"
proof -
  have "norm_dict (fst (fst (for_each (encode_feature side kind)
          (map fst (side_features side self)) (self, 0)))) = norm_dict self"
    by (rule for_each_invariant [where P = "\<lambda>s. norm_dict (fst s) = norm_dict self"])
      (auto simp: encode_feature_norm)
  then show ?thesis by (auto simp: encode_side_def split: prod.splits)
qed

lemma encode_classes_norm: "norm_dict (fst (encode_classes self)) = norm_dict self"
  by (simp add: encode_classes_def and_then_def encode_side_norm split: option.splits)

lemma construct_matrices_keeps_entry:
  assumes "norm_dict self f = Some st"
  shows "norm_dict (fst (construct_matrices e self)) f = Some st"
proof (cases "files e (csvFileName self)")
  case None
  then show ?thesis
    using assms by (simp add: construct_matrices_def get_csv_rowcount_def)
next
  case (Some rows)
  let ?s1 = "allocated e (length rows) self"
  let ?s2 = "fst (fill_rows e rows ?s1)"
  have cm: "construct_matrices e self =
      and_then (and_then (fill_rows e rows ?s1) normalize_mls) encode_classes"
    using Some by (simp add: construct_matrices_def get_csv_rowcount_def Let_def allocated_def)
  have "same_schema ?s1 ?s2" by (rule fill_rows_schema)
  then have n2: "norm_dict ?s2 f = Some st"
    using assms by (simp add: same_schema_def allocated_def)
  then have n3: "norm_dict (fst (normalize_mls ?s2)) f = Some st"
    by (rule normalize_mls_keeps_entry)
  then have n4: "norm_dict (fst (encode_classes (fst (normalize_mls ?s2)))) f = Some st"
    by (simp add: encode_classes_norm)
  show ?thesis
    using n2 n3 n4 by (simp add: cm and_then_def split: option.splits)
qed

text \<open>
  What \<open>_normalize\<close> does with a supplied entry when it is reached on an object whose policy
  is set: the entry is still there, unchanged, when \<open>_normalize\<close>, \<open>_construct_matrices\<close> or
  \<open>__init__\<close> ends, and when \<open>_normalize\<close> returns, the column of the field is the column it
  had, scaled with the mean and the standard deviation of the entry.
\<close>

lemma normalize_uses_supplied_entry:
  assumes "norm_dict self f = Some st"
  shows "norm_dict (fst (normalize_mls self)) f = Some st
    \<and> norm_dict (fst (construct_matrices e self)) f = Some st
    \<and> (self = init_attributes name feats cd nm
          \<longrightarrow> norm_dict (fst (init e name feats cd nm nb)) f = Some st)
    \<and> (snd (normalize_mls self) = None \<and> distinct (map fst (features self))
        \<and> f \<in> set (map fst (features self)) \<and> scaled_on side self f
        \<and> column_index side self f = Some c
          \<longrightarrow> column_at side c self \<noteq> None
            \<and> column_at side c (fst (normalize_mls self))
                = map_option (scale_column (mean st) (std st)) (column_at side c self))"
proof (intro conjI impI)
  show "norm_dict (fst (normalize_mls self)) f = Some st"
    using assms by (rule normalize_mls_keeps_entry)
  show c: "norm_dict (fst (construct_matrices e self)) f = Some st"
    using assms by (rule construct_matrices_keeps_entry)
  show "norm_dict (fst (init e name feats cd nm nb)) f = Some st"
    if "self = init_attributes name feats cd nm"
    using that c by (simp add: init_is_construct)
  assume h: "snd (normalize_mls self) = None \<and> distinct (map fst (features self))
        \<and> f \<in> set (map fst (features self)) \<and> scaled_on side self f
        \<and> column_index side self f = Some c"
  then obtain nb' where nb: "nan_behaviour self = Some nb'" "nb' \<noteq> ''delete_row''"
    by (auto simp: normalize_mls_def split: option.splits if_splits)
  then have loop: "normalize_mls self = for_each normalize_feature (map fst (features self)) self"
    by (simp add: normalize_mls_def)
  have "column_at side c self \<noteq> None
      \<and> column_at side c (fst (for_each normalize_feature (map fst (features self)) self))
          = map_option (scale_column (mean st) (std st)) (column_at side c self)"
  proof (rule normalize_loop_supplied)
    show "norm_dict self f = Some st" by (rule assms)
    show "scaled_on side self f" using h by simp
    show "column_index side self f = Some c" using h by simp
    show "distinct (map fst (features self))" using h by simp
    show "f \<in> set (map fst (features self))" using h by simp
    show "snd (for_each normalize_feature (map fst (features self)) self) = None"
      using h loop by simp
  qed
  then show "column_at side c self \<noteq> None"
    and "column_at side c (fst (normalize_mls self))
          = map_option (scale_column (mean st) (std st)) (column_at side c self)"
    by (simp_all add: loop)
qed

lemma supplied_scenario_run:
  "normalize_mls supplied_scenario =
     (supplied_scenario\<lparr>input_set := Some \<lparr>nrows = 2, cols = [[Num 0, Num 1]]\<rparr>,
        target_set := Some \<lparr>nrows = 2, cols = [[Num 0, Num 1]]\<rparr>\<rparr>, None)"
  by (simp add: supplied_scenario_def stats_scenario_def normalize_run_defs)

lemma normalize_uses_supplied_entry_example:
  "norm_dict supplied_scenario ''x'' = Some \<lparr>mean = Num 1, std = Num 2\<rparr>
   \<and> norm_dict (fst (normalize_mls supplied_scenario)) ''x'' = Some \<lparr>mean = Num 1, std = Num 2\<rparr>
   \<and> column_at Input 0 (fst (normalize_mls supplied_scenario))
       = Some (scale_column (Num 1) (Num 2) [Num 1, Num 3])
   \<and> norm_dict supplied_scenario ''y'' = Some \<lparr>mean = Num 10, std = Num 10\<rparr>
   \<and> column_at Target 0 (fst (normalize_mls supplied_scenario))
       = Some (scale_column (Num 10) (Num 10) [Num 10, Num 20])"
proof -
  have x: "norm_dict supplied_scenario ''x'' = Some \<lparr>mean = Num 1, std = Num 2\<rparr>"
    and y: "norm_dict supplied_scenario ''y'' = Some \<lparr>mean = Num 10, std = Num 10\<rparr>"
    by (simp_all add: supplied_scenario_def)
  have ok: "snd (normalize_mls supplied_scenario) = None"
    by (simp add: supplied_scenario_run)
  have d: "distinct (map fst (features supplied_scenario))"
    and fx: "''x'' \<in> set (map fst (features supplied_scenario))"
    and fy: "''y'' \<in> set (map fst (features supplied_scenario))"
    and sx: "scaled_on Input supplied_scenario ''x''"
    and sy: "scaled_on Target supplied_scenario ''y''"
    and cx: "column_index Input supplied_scenario ''x'' = Some 0"
    and cy: "column_index Target supplied_scenario ''y'' = Some 0"
    and ax: "column_at Input 0 supplied_scenario = Some [Num 1, Num 3]"
    and ay: "column_at Target 0 supplied_scenario = Some [Num 10, Num 20]"
    by (simp_all add: supplied_scenario_def stats_scenario_def init_attributes_def scaled_on_def
        column_index_def column_at_def)
  show ?thesis
    using normalize_uses_supplied_entry [OF x, where side = Input and c = 0]
      normalize_uses_supplied_entry [OF y, where side = Target and c = 0]
      x y ok d fx fy sx sy cx cy ax ay
    by simp
qed

text \<open>
  C6 (the code departs from the claim). The caller supplies the entry (1, 2) for the
  continuous field \<open>a\<close>, whose one value is 3. \<open>__init__\<close> raises the AttributeError of line
  153 before line 168 is reached: the entry is unchanged, but the column still holds 3, where
  the entry gives (3 - 1) / 2 = 1.
\<close>

theorem supplied_stats_not_applied:
  "snd supplied_run = Some (AttributeError ''nan_behaviour'')
   \<and> norm_dict (fst supplied_run) ''a'' = Some \<lparr>mean = Num 1, std = Num 2\<rparr>
   \<and> column_at Input 0 (fst supplied_run) = Some [Num 3]
   \<and> scale_column (Num 1) (Num 2) [Num 3] = [Num 1]"
  by (simp add: supplied_run_def run_defs column_at_def scale_column_def np_sub_def)

section \<open>One-hot expansion\<close>

lemma hot_encode_shape:
  assumes "hot_encode i (Some (int n)) = Inr enc"
  shows "nrows enc = length i \<and> length (cols enc) = block_width n"
proof (cases "n \<le> 2")
  case True
  then show ?thesis
    using assms
    by (auto simp: hot_encode_def block_width_def Let_def split: if_splits list.splits)
next
  case False
  then show ?thesis
    using assms
    by (auto simp: hot_encode_def block_width_def Let_def split: if_splits)
qed


lemma index_of_distinct: "x \<notin> set xs \<Longrightarrow> index_of (xs @ x # ys) x = Some (length xs)"
  by (induction xs) auto

lemma map_of_distinct: "f \<notin> fst ` set xs \<Longrightarrow> map_of (xs @ (f, k) # ys) f = Some k"
  by (induction xs) auto

lemma hstack3:
  "hstack [a1, a2, a3] =
     (if nrows a2 = nrows a1 \<and> nrows a3 = nrows a1
      then Inr \<lparr>nrows = nrows a1, cols = cols a1 @ cols a2 @ cols a3\<rparr>
      else Inl (ValueError ''all the input array dimensions must match''))"
  by (simp add: hstack_def)

lemma encode_feature_frame:
  "side_features sd (fst (fst (encode_feature side kind f (s, off)))) = side_features sd s"
  "sd \<noteq> side \<Longrightarrow> get_set sd (fst (fst (encode_feature side kind f (s, off)))) = get_set sd s"
  by (simp_all add: encode_feature_def Let_def put_set_frame split: option.splits sum.splits)

lemma block_width_pos: "0 < block_width n"
  by (simp add: block_width_def)

lemma encode_feature_step:
  assumes fs: "side_features side s = pre @ (f, k) # rest"
    and d: "f \<notin> fst ` set pre"
    and a: "get_set side s = Some a" "cols a = P @ col # R" "length P = length pre + off"
    and run: "encode_feature side kind f (s, off) = ((s', off'), None)"
  shows "\<exists>a'. get_set side s' = Some a' \<and> nrows a' = nrows a
      \<and> cols a' = (P @ field_block (classDict s) kind ((f, k), col)) @ R
      \<and> length (field_block (classDict s) kind ((f, k), col)) = field_width (classDict s) kind (f, k)
      \<and> length (P @ field_block (classDict s) kind ((f, k), col)) = length (pre @ [(f, k)]) + off'"
proof -
  have mo: "map_of (side_features side s) f = Some k"
    unfolding fs using d by (rule map_of_distinct)
  have "f \<notin> set (map fst pre)" using d by simp
  then have "index_of (map fst pre @ f # map fst rest) f = Some (length (map fst pre))"
    by (rule index_of_distinct)
  then have ci: "column_index side s f = Some (length pre)"
    by (simp add: column_index_def fs)
  show ?thesis
  proof (cases "k = kind")
    case False
    then have "encode_feature side kind f (s, off) = ((s, off), None)"
      using mo by (simp add: encode_feature_def)
    with run have "s' = s" "off' = off" by simp_all
    then show ?thesis
      using False a by (simp add: field_block_def field_width_def)
  next
    case True
    define c where "c = length pre + off"
    have cP: "c = length P" using a(3) by (simp add: c_def)
    have gc: "get_column side s c = Inr col"
      using a(1,2) cP by (simp add: get_column_def)
    obtain classes where cl: "classDict s f = Some classes"
    proof (cases "classDict s f")
      case None
      then have "snd (encode_feature side kind f (s, off)) \<noteq> None"
        using mo ci True by (simp add: encode_feature_def Let_def)
      with run show ?thesis by simp
    next
      case (Some classes)
      then show ?thesis by (rule that)
    qed
    obtain enc where he: "hot_encode (map astype_int col) (Some (int (length classes))) = Inr enc"
    proof (cases "hot_encode (map astype_int col) (Some (int (length classes)))")
      case (Inl e)
      then have "snd (encode_feature side kind f (s, off)) \<noteq> None"
        using mo ci True cl gc by (simp add: encode_feature_def Let_def c_def)
      with run show ?thesis by simp
    next
      case (Inr enc)
      then show ?thesis by (rule that)
    qed
    have sh: "nrows enc = length col" "length (cols enc) = block_width (length classes)"
      using hot_encode_shape [OF he] by simp_all
    have tk: "take c (cols a) = P" and dr: "drop (c + 1) (cols a) = R"
      using a(2) cP by simp_all
    have ef: "encode_feature side kind f (s, off) =
        (if nrows enc = nrows a
         then ((put_set side \<lparr>nrows = nrows a, cols = P @ cols enc @ R\<rparr> s,
                off + length (cols enc) - 1), None)
         else ((s, off + length (cols enc) - 1),
               Some (ValueError ''all the input array dimensions must match'')))"
      using mo ci True cl gc he a(1) tk dr
      by (simp add: encode_feature_def Let_def c_def [symmetric] hstack3)
    have eq: "nrows enc = nrows a"
    proof (rule ccontr)
      assume "nrows enc \<noteq> nrows a"
      then have "snd (encode_feature side kind f (s, off)) \<noteq> None" by (simp add: ef)
      with run show False by simp
    qed
    have res: "s' = put_set side \<lparr>nrows = nrows a, cols = P @ cols enc @ R\<rparr> s"
      "off' = off + length (cols enc) - 1"
      using run ef eq by simp_all
    have fb: "field_block (classDict s) kind ((f, k), col) = cols enc"
      using True cl he by (simp add: field_block_def)
    have fw: "field_width (classDict s) kind (f, k) = block_width (length classes)"
      using True cl by (simp add: field_width_def)
    have pos: "0 < length (cols enc)" using sh(2) block_width_pos by simp
    show ?thesis
      using res fb fw sh pos a(3) by (simp add: put_set_frame)
  qed
qed

lemma for_each_Cons_ok:
  assumes "for_each body (x # xs) s = (s', None)"
  shows "snd (body x s) = None \<and> for_each body xs (fst (body x s)) = (s', None)"
proof (cases "body x s")
  case (Pair s1 err)
  then show ?thesis using assms by (cases err) simp_all
qed

lemma encode_loop:
  assumes "side_features side s = pre @ todo"
    and "distinct (map fst (pre @ todo))"
    and "get_set side s = Some a" "cols a = P @ R" "length R = length todo"
    and "length P = length pre + off"
    and "for_each (encode_feature side kind) (map fst todo) (s, off) = ((s', off'), None)"
  shows "\<exists>a'. get_set side s' = Some a' \<and> nrows a' = nrows a
      \<and> cols a' = P @ concat (map (field_block (classDict s) kind) (zip todo R))
      \<and> length (cols a') = length P + sum_list (map (field_width (classDict s) kind) todo)"
  using assms
proof (induction todo arbitrary: pre s off a P R)
  case Nil
  then show ?case by simp
next
  case (Cons fk todo)
  obtain f k where fk: "fk = (f, k)" by (cases fk)
  from Cons.prems(5) obtain col R' where R: "R = col # R'"
    by (cases R) simp_all
  let ?r = "encode_feature side kind f (s, off)"
  have run: "for_each (encode_feature side kind) (f # map fst todo) (s, off) = ((s', off'), None)"
    using Cons.prems(7) by (simp add: fk)
  have ok: "snd ?r = None"
    and rest: "for_each (encode_feature side kind) (map fst todo) (fst ?r) = ((s', off'), None)"
    using for_each_Cons_ok [OF run] by simp_all
  obtain s1 off1 where r: "?r = ((s1, off1), None)"
    using ok by (metis prod.collapse)
  have d: "f \<notin> fst ` set pre"
    using Cons.prems(2) by (auto simp: fk)
  let ?b = "field_block (classDict s) kind ((f, k), col)"
  have "\<exists>a1. get_set side s1 = Some a1 \<and> nrows a1 = nrows a
      \<and> cols a1 = (P @ ?b) @ R'
      \<and> length ?b = field_width (classDict s) kind (f, k)
      \<and> length (P @ ?b) = length (pre @ [(f, k)]) + off1"
    by (rule encode_feature_step [where rest = todo and off = off, OF _ d Cons.prems(3) _ Cons.prems(6) r])
      (simp_all add: Cons.prems(1,4) fk R)
  then obtain a1 where a1: "get_set side s1 = Some a1" "nrows a1 = nrows a"
      "cols a1 = (P @ ?b) @ R'" "length ?b = field_width (classDict s) kind (f, k)"
      "length (P @ ?b) = length (pre @ [(f, k)]) + off1"
    by blast
  have sf1: "side_features side s1 = (pre @ [(f, k)]) @ todo"
    using encode_feature_frame(1) [of side side kind f s off] r Cons.prems(1) by (simp add: fk)
  have cd1: "classDict s1 = classDict s"
    using encode_feature_classDict [of side kind f s off] r by simp
  have dist: "distinct (map fst ((pre @ [(f, k)]) @ todo))"
    using Cons.prems(2) by (simp add: fk)
  have len: "length R' = length todo" using Cons.prems(5) R by simp
  have rest': "for_each (encode_feature side kind) (map fst todo) (s1, off1) = ((s', off'), None)"
    using rest r by simp
  from Cons.IH [OF sf1 dist a1(1) a1(3) len a1(5) rest']
  obtain a' where a': "get_set side s' = Some a'" "nrows a' = nrows a1"
      "cols a' = (P @ ?b) @ concat (map (field_block (classDict s1) kind) (zip todo R'))"
      "length (cols a') = length (P @ ?b) + sum_list (map (field_width (classDict s1) kind) todo)"
    by blast
  show ?case
    using a' a1(2,4) cd1 by (simp add: fk R)
qed

lemma encode_side_result:
  assumes "encode_side side kind self = (self', None)"
    and "distinct (map fst (side_features side self))"
    and "get_set side self = Some a" "length (cols a) = length (side_features side self)"
  shows "\<exists>a'. get_set side self' = Some a' \<and> nrows a' = nrows a
      \<and> cols a' = concat (map (field_block (classDict self) kind)
                              (zip (side_features side self) (cols a)))
      \<and> length (cols a') = sum_list (map (field_width (classDict self) kind)
                                        (side_features side self))"
proof -
  obtain s1 off1 err where r: "for_each (encode_feature side kind)
      (map fst (side_features side self)) (self, 0) = ((s1, off1), err)"
    by (metis prod.collapse)
  with assms(1) have "s1 = self'" "err = None" by (simp_all add: encode_side_def)
  with r have run: "for_each (encode_feature side kind)
      (map fst (side_features side self)) (self, 0) = ((self', off1), None)"
    by simp
  have "\<exists>a'. get_set side self' = Some a' \<and> nrows a' = nrows a
      \<and> cols a' = [] @ concat (map (field_block (classDict self) kind)
                              (zip (side_features side self) (cols a)))
      \<and> length (cols a') = length ([] :: npfloat list list)
            + sum_list (map (field_width (classDict self) kind) (side_features side self))"
    by (rule encode_loop [where pre = "[]" and off = 0, OF _ _ assms(3) _ assms(4) _ run])
      (simp_all add: assms(2))
  then show ?thesis by simp
qed

lemma encode_side_frame:
  "side_features sd (fst (encode_side side kind self)) = side_features sd self"
  "sd \<noteq> side \<Longrightarrow> get_set sd (fst (encode_side side kind self)) = get_set sd self"
proof -
  let ?r = "for_each (encode_feature side kind) (map fst (side_features side self)) (self, 0)"
  have 1: "side_features sd (fst (fst ?r)) = side_features sd self"
    by (rule for_each_invariant [where P = "\<lambda>s. side_features sd (fst s) = side_features sd self"])
      (auto simp: encode_feature_frame)
  have 2: "get_set sd (fst (fst ?r)) = get_set sd self" if "sd \<noteq> side"
    by (rule for_each_invariant [where P = "\<lambda>s. get_set sd (fst s) = get_set sd self"])
      (auto simp: encode_feature_frame that)
  show "side_features sd (fst (encode_side side kind self)) = side_features sd self"
    using 1 by (auto simp: encode_side_def split: prod.splits)
  show "get_set sd (fst (encode_side side kind self)) = get_set sd self" if "sd \<noteq> side"
    using 2 [OF that] by (auto simp: encode_side_def split: prod.splits)
qed

lemma encode_classes_ok:
  assumes "encode_classes self = (self', None)"
  shows "encode_side Input ''class'' self = (fst (encode_side Input ''class'' self), None)
    \<and> encode_side Target ''target_class'' (fst (encode_side Input ''class'' self)) = (self', None)"
proof (cases "encode_side Input ''class'' self")
  case (Pair s1 err)
  then show ?thesis
    using assms by (cases err) (simp_all add: encode_classes_def and_then_def)
qed

lemma astype_int_codes:
  "astype_int (Num 0) = 0" "astype_int (Num 1) = 1" "astype_int (Num 2) = 2"
  by (simp_all add: astype_int_def)

lemma encode_scenario_run:
  "encode_classes encode_scenario =
     (encode_scenario
        \<lparr>input_set := Some \<lparr>nrows = 3, cols =
            [[Num 1, Num 0, Num 0], [Num 0, Num 0, Num 1], [Num 0, Num 1, Num 0],
             [Num 5, Num 6, Num 7],
             [Num 1, Num 0, Num 1]]\<rparr>,
         target_set := Some \<lparr>nrows = 3, cols = [[Num 1, Num 0, Num 0]]\<rparr>\<rparr>, None)"
  by (simp add: encode_scenario_def init_attributes_def encode_classes_def and_then_def
      encode_side_def encode_feature_def column_index_def get_column_def hot_encode_def
      hstack_def astype_int_codes upt_conv_Cons)

lemma encode_classes_widths:
  assumes "encode_classes self = (self', None)"
    and "distinct (map fst (input_features self))" "distinct (map fst (target_features self))"
    and "input_set self = Some a" "length (cols a) = length (input_features self)"
    and "target_set self = Some t" "length (cols t) = length (target_features self)"
  shows "shape1 (input_set self')
           = Inr (sum_list (map (field_width (classDict self) ''class'') (input_features self)))
    \<and> shape1 (target_set self')
           = Inr (sum_list (map (field_width (classDict self) ''target_class'')
                    (target_features self)))"
proof -
  let ?s1 = "fst (encode_side Input ''class'' self)"
  have r1: "encode_side Input ''class'' self = (?s1, None)"
    and r2: "encode_side Target ''target_class'' ?s1 = (self', None)"
    using encode_classes_ok [OF assms(1)] by simp_all
  obtain a' where a': "get_set Input ?s1 = Some a'"
      "length (cols a') = sum_list (map (field_width (classDict self) ''class'')
                                        (side_features Input self))"
    using encode_side_result [OF r1] assms(2,4,5) by auto
  have t1: "get_set Target ?s1 = Some t"
    using encode_side_frame(2) [of Target Input "''class''" self] assms(6) by simp
  have f1: "side_features Target ?s1 = target_features self"
    using encode_side_frame(1) [of Target Input "''class''" self] by simp
  have c1: "classDict ?s1 = classDict self" by (rule encode_side_classDict)
  obtain t' where t': "get_set Target self' = Some t'"
      "length (cols t') = sum_list (map (field_width (classDict ?s1) ''target_class'')
                                        (side_features Target ?s1))"
    using encode_side_result [OF r2 _ t1] assms(3,7) f1 by auto
  have "self' = fst (encode_side Target ''target_class'' ?s1)" using r2 by simp
  then have i': "get_set Input self' = Some a'"
    using encode_side_frame(2) [of Input Target "''target_class''" ?s1] a'(1) by simp
  show ?thesis
    using i' a'(2) t' f1 c1 by (simp add: shape1_def)
qed

lemma shaped_cong:
  assumes "shaped n s" "\<And>sd. get_set sd s' = get_set sd s"
    "\<And>sd. side_features sd s' = side_features sd s"
  shows "shaped n s'"
  using assms unfolding shaped_def by simp

lemma shaped_put_set:
  assumes "shaped n self" "nrows a' = n" "length (cols a') = length (side_features side self)"
  shows "shaped n (put_set side a' self)"
  unfolding shaped_def
proof
  fix sd
  from assms(1) obtain b where b: "get_set sd self = Some b" "nrows b = n"
      "length (cols b) = length (side_features sd self)"
    unfolding shaped_def by blast
  show "\<exists>a. get_set sd (put_set side a' self) = Some a \<and> nrows a = n
      \<and> length (cols a) = length (side_features sd (put_set side a' self))"
  proof (cases "sd = side")
    case True
    then show ?thesis using assms(2,3) by (simp add: put_set_frame)
  next
    case False
    then show ?thesis using b by (simp add: put_set_frame)
  qed
qed

lemma shaped_get:
  assumes "shaped n self"
  obtains a where "get_set side self = Some a" "nrows a = n"
    "length (cols a) = length (side_features side self)"
  using assms unfolding shaped_def by blast

lemma set_cell_shaped:
  assumes "shaped n self"
  shows "shaped n (fst (set_cell side self r c v))"
proof -
  from assms obtain a where a: "get_set side self = Some a" "nrows a = n"
      "length (cols a) = length (side_features side self)"
    by (rule shaped_get)
  have "shaped n (put_set side (a\<lparr>cols := (cols a)[c := (cols a ! c)[r := v]]\<rparr>) self)"
    using a by (intro shaped_put_set [OF assms]) simp_all
  then show ?thesis
    using a assms by (simp add: set_cell_def setitem_def)
qed

lemma store_float_shaped: "shaped n self \<Longrightarrow> shaped n (fst (store_float e side r f s self))"
  by (simp add: store_float_def set_cell_shaped split: option.splits)

lemma store_class_shaped:
  assumes "shaped n self"
  shows "shaped n (fst (store_class side r f s self))"
proof -
  obtain cd code where cc: "class_code (classDict self) f s = (cd, code)"
    by (cases "class_code (classDict self) f s")
  have "shaped n (self\<lparr>classDict := cd\<rparr>)" using assms by (rule shaped_classDict)
  then show ?thesis
    using cc by (simp add: store_class_def Let_def set_cell_shaped split: option.splits)
qed

lemma fill_cell_shaped: "shaped n self \<Longrightarrow> shaped n (fst (fill_cell e r row f self))"
  by (simp add: fill_cell_def store_float_shaped store_class_shaped split: option.splits)

lemma fill_row_shaped:
  assumes "shaped n self"
  shows "shaped n (fst (fill_row e rr self))"
proof -
  obtain r row where rr: "rr = (r, row)" by (cases rr)
  have "shaped n (fst (for_each (fill_cell e r row) (map fst (features self)) self))"
    by (rule for_each_invariant [where P = "shaped n"]) (simp_all add: assms fill_cell_shaped)
  then show ?thesis by (simp add: fill_row_def rr)
qed

lemma fill_rows_shaped: "shaped n self \<Longrightarrow> shaped n (fst (fill_rows e rows self))"
  unfolding fill_rows_def
  by (rule for_each_invariant [where P = "shaped n"]) (simp_all add: fill_row_shaped)

lemma set_column_shaped:
  assumes "shaped n self"
  shows "shaped n (fst (set_column side self c col))"
proof -
  from assms obtain a where a: "get_set side self = Some a" "nrows a = n"
      "length (cols a) = length (side_features side self)"
    by (rule shaped_get)
  have "shaped n (put_set side (a\<lparr>cols := (cols a)[c := col]\<rparr>) self)"
    using a by (intro shaped_put_set [OF assms]) simp_all
  then show ?thesis
    using a assms by (simp add: set_column_def)
qed

lemma apply_stats_shaped: "shaped n self \<Longrightarrow> shaped n (fst (apply_stats side f c self))"
  by (simp add: apply_stats_def set_column_shaped split: option.splits sum.splits)

lemma compute_stats_shaped:
  assumes "shaped n self" "compute_stats ss f c self = Inr s1"
  shows "shaped n s1"
  using assms(1)
  by (rule shaped_cong) (simp_all add: compute_stats_frame(1,3) [OF assms(2)])

lemma normalize_column_shaped:
  assumes "shaped n self"
  shows "shaped n (fst (normalize_column side ss f self))"
proof (cases "column_index side self f")
  case None
  then show ?thesis using assms by (simp add: normalize_column_def)
next
  case (Some c)
  show ?thesis
  proof (cases "compute_stats ss f c self")
    case (Inl e)
    then show ?thesis using Some assms by (simp add: normalize_column_def)
  next
    case (Inr s1)
    then show ?thesis
      using Some apply_stats_shaped [OF compute_stats_shaped [OF assms Inr], of side f c]
      by (simp add: normalize_column_def)
  qed
qed

lemma normalize_feature_shaped: "shaped n self \<Longrightarrow> shaped n (fst (normalize_feature f self))"
  by (simp add: normalize_feature_def normalize_column_shaped)

lemma normalize_mls_shaped:
  assumes "shaped n self"
  shows "shaped n (fst (normalize_mls self))"
proof (cases "nan_behaviour self")
  case None
  then show ?thesis using assms by (simp add: normalize_mls_def)
next
  case (Some nb)
  have "shaped n (fst (for_each normalize_feature (map fst (features self)) self))"
    by (rule for_each_invariant [where P = "shaped n"]) (simp_all add: assms normalize_feature_shaped)
  then show ?thesis using Some assms by (simp add: normalize_mls_def)
qed

lemma normalize_mls_features:
  "side_features sd (fst (normalize_mls self)) = side_features sd self"
proof (cases "nan_behaviour self")
  case None
  then show ?thesis by (simp add: normalize_mls_def)
next
  case (Some nb)
  have "side_features sd (fst (for_each normalize_feature (map fst (features self)) self))
      = side_features sd self"
    by (rule for_each_invariant [where P = "\<lambda>s. side_features sd s = side_features sd self"])
      (simp_all add: normalize_feature_frame)
  then show ?thesis using Some by (simp add: normalize_mls_def)
qed

lemma and_then_ok:
  assumes "and_then r f = (s', None)"
  shows "snd r = None \<and> f (fst r) = (s', None)"
  using assms by (cases "snd r") (auto simp: and_then_def)

lemma construct_matrices_widths:
  assumes "construct_matrices e self = (self', None)"
    and "distinct (map fst (input_features self))" "distinct (map fst (target_features self))"
  shows "shape1 (input_set self')
           = Inr (sum_list (map (field_width (classDict self') ''class'') (input_features self)))
    \<and> shape1 (target_set self')
           = Inr (sum_list (map (field_width (classDict self') ''target_class'')
                    (target_features self)))"
proof -
  obtain rows where rows: "files e (csvFileName self) = Some rows"
    using assms(1)
    by (cases "files e (csvFileName self)") (simp_all add: construct_matrices_def get_csv_rowcount_def)
  let ?s0 = "allocated e (length rows) self"
  let ?s1 = "fst (fill_rows e rows ?s0)"
  let ?s2 = "fst (normalize_mls ?s1)"
  have cm: "construct_matrices e self =
      and_then (and_then (fill_rows e rows ?s0) normalize_mls) encode_classes"
    using rows by (simp add: construct_matrices_def get_csv_rowcount_def Let_def allocated_def)
  with assms(1) have 1: "and_then (and_then (fill_rows e rows ?s0) normalize_mls) encode_classes
      = (self', None)" by simp
  from and_then_ok [OF 1]
  have 2: "snd (and_then (fill_rows e rows ?s0) normalize_mls) = None"
    and 3: "encode_classes (fst (and_then (fill_rows e rows ?s0) normalize_mls)) = (self', None)"
    by simp_all
  have 4: "and_then (fill_rows e rows ?s0) normalize_mls
      = (fst (and_then (fill_rows e rows ?s0) normalize_mls), None)"
    using 2 by (metis prod.collapse)
  from and_then_ok [OF 4]
  have 5: "normalize_mls ?s1 = (fst (and_then (fill_rows e rows ?s0) normalize_mls), None)"
    by simp
  then have s2: "fst (and_then (fill_rows e rows ?s0) normalize_mls) = ?s2" by simp
  have enc: "encode_classes ?s2 = (self', None)" using 3 s2 by simp
  have sh: "shaped (length rows) ?s2"
    by (intro normalize_mls_shaped fill_rows_shaped shaped_allocated)
  have ss: "same_schema ?s0 ?s1" by (rule fill_rows_schema)
  have f2: "side_features sd ?s2 = side_features sd self" for sd
    using ss normalize_mls_features [of sd ?s1]
    by (cases sd) (simp_all add: same_schema_def allocated_def)
  obtain a where a: "get_set Input ?s2 = Some a" "length (cols a) = length (side_features Input ?s2)"
    using sh by (rule shaped_get)
  obtain t where t: "get_set Target ?s2 = Some t" "length (cols t) = length (side_features Target ?s2)"
    using sh by (rule shaped_get)
  have cd: "classDict self' = classDict ?s2"
    using encode_classes_classDict [of ?s2] enc by simp
  have "shape1 (input_set self')
           = Inr (sum_list (map (field_width (classDict ?s2) ''class'') (input_features ?s2)))
    \<and> shape1 (target_set self')
           = Inr (sum_list (map (field_width (classDict ?s2) ''target_class'')
                    (target_features ?s2)))"
  proof (rule encode_classes_widths [OF enc])
    show "distinct (map fst (input_features ?s2))" using f2 [of Input] assms(2) by simp
    show "distinct (map fst (target_features ?s2))" using f2 [of Target] assms(3) by simp
    show "input_set ?s2 = Some a" using a(1) by simp
    show "length (cols a) = length (input_features ?s2)" using a(2) by simp
    show "target_set ?s2 = Some t" using t(1) by simp
    show "length (cols t) = length (target_features ?s2)" using t(2) by simp
  qed
  then show ?thesis using cd f2 [of Input] f2 [of Target] by simp
qed

text \<open>
  The column counts when the expansion is reached and returns, on an object whose policy is
  set: for \<open>_encode_classes\<close> on matrices that have one column per field, and for a run of
  \<open>_construct_matrices\<close>, the column count of each matrix is the sum over its fields of 1 for
  a field that is not categorical, 1 for a categorical field with at most two categories in
  the dictionary and \<open>k\<close> for one with \<open>k > 2\<close> categories.
\<close>

lemma column_counts_when_returning:
  "(encode_classes self = (self', None)
    \<and> distinct (map fst (input_features self)) \<and> distinct (map fst (target_features self))
    \<and> input_set self = Some a \<and> length (cols a) = length (input_features self)
    \<and> target_set self = Some t \<and> length (cols t) = length (target_features self)
    \<longrightarrow> shape1 (input_set self')
           = Inr (sum_list (map (field_width (classDict self) ''class'') (input_features self)))
      \<and> shape1 (target_set self')
           = Inr (sum_list (map (field_width (classDict self) ''target_class'')
                    (target_features self))))
   \<and> (construct_matrices e obj = (obj', None)
    \<and> distinct (map fst (input_features obj)) \<and> distinct (map fst (target_features obj))
    \<longrightarrow> shape1 (input_set obj')
           = Inr (sum_list (map (field_width (classDict obj') ''class'') (input_features obj)))
      \<and> shape1 (target_set obj')
           = Inr (sum_list (map (field_width (classDict obj') ''target_class'')
                    (target_features obj))))"
proof (intro conjI impI)
  assume h: "encode_classes self = (self', None)
    \<and> distinct (map fst (input_features self)) \<and> distinct (map fst (target_features self))
    \<and> input_set self = Some a \<and> length (cols a) = length (input_features self)
    \<and> target_set self = Some t \<and> length (cols t) = length (target_features self)"
  then have w: "shape1 (input_set self')
           = Inr (sum_list (map (field_width (classDict self) ''class'') (input_features self)))
      \<and> shape1 (target_set self')
           = Inr (sum_list (map (field_width (classDict self) ''target_class'')
                    (target_features self)))"
    by (intro encode_classes_widths [where a = a and t = t]) simp_all
  from w show "shape1 (input_set self')
           = Inr (sum_list (map (field_width (classDict self) ''class'') (input_features self)))"
    by simp
  from w show "shape1 (target_set self')
           = Inr (sum_list (map (field_width (classDict self) ''target_class'')
                    (target_features self)))"
    by simp
next
  assume h: "construct_matrices e obj = (obj', None)
    \<and> distinct (map fst (input_features obj)) \<and> distinct (map fst (target_features obj))"
  then have w: "shape1 (input_set obj')
           = Inr (sum_list (map (field_width (classDict obj') ''class'') (input_features obj)))
      \<and> shape1 (target_set obj')
           = Inr (sum_list (map (field_width (classDict obj') ''target_class'')
                    (target_features obj)))"
    by (intro construct_matrices_widths [where e = e]) simp_all
  from w show "shape1 (input_set obj')
           = Inr (sum_list (map (field_width (classDict obj') ''class'') (input_features obj)))"
    by simp
  from w show "shape1 (target_set obj')
           = Inr (sum_list (map (field_width (classDict obj') ''target_class'')
                    (target_features obj)))"
    by simp
qed

lemma encode_scenario_facts:
  "distinct (map fst (input_features encode_scenario))"
  "distinct (map fst (target_features encode_scenario))"
  "input_set encode_scenario = Some \<lparr>nrows = 3, cols = [[Num 0, Num 2, Num 1],
      [Num 5, Num 6, Num 7], [Num 0, Num 1, Num 0]]\<rparr>"
  "target_set encode_scenario = Some \<lparr>nrows = 3, cols = [[Num 0, Num 1, Num 1]]\<rparr>"
  "input_features encode_scenario = [(''p'', ''class''), (''a'', ''continuous''), (''e'', ''class'')]"
  "target_features encode_scenario = [(''s'', ''target_class'')]"
  "classDict encode_scenario
     = [''p'' \<mapsto> [''1'', ''2'', ''3''], ''e'' \<mapsto> [''S'', ''C''], ''s'' \<mapsto> [''0'', ''1'']]"
  by (simp_all add: encode_scenario_def init_attributes_def)

lemmas pipeline_run_defs =
  and_then_def construct_matrices_def get_csv_rowcount_def test_env_def
  init_attributes_def fill_rows_def fill_row_def fill_cell_def store_float_def store_class_def
  class_code_def column_index_def set_cell_def setitem_def np_ndarray_def normalize_mls_def
  decimal_float_def unsigned_decimal_def digit_val_def normalize_feature_def
  normalize_column_def compute_stats_def apply_stats_def get_column_def
  set_column_def scale_column_def np_sub_def
  encode_classes_def encode_side_def encode_feature_def hot_encode_def
  hstack_def astype_int_codes upt_conv_Cons

lemma pipeline_run:
  "construct_matrices (test_env [''f'' \<mapsto> three_rows]) pipeline_scenario =
     (pipeline_scenario
        \<lparr>classDict := [''p'' \<mapsto> [''1'', ''3'', ''2''], ''e'' \<mapsto> [''S'', ''C''],
                        ''s'' \<mapsto> [''0'', ''1'']],
         input_set := Some \<lparr>nrows = 3, cols =
            [[Num 1, Num 0, Num 0], [Num 0, Num 1, Num 0], [Num 0, Num 0, Num 1],
             [Num 0, Num 1, Num 2],
             [Num 1, Num 0, Num 1]]\<rparr>,
         target_set := Some \<lparr>nrows = 3, cols = [[Num 1, Num 0, Num 0]]\<rparr>\<rparr>, None)"
  by (simp add: pipeline_scenario_def three_rows_def pipeline_run_defs)

lemma column_counts_example:
  "encode_classes encode_scenario = (fst (encode_classes encode_scenario), None)
   \<and> shape1 (input_set (fst (encode_classes encode_scenario))) = Inr 5
   \<and> shape1 (target_set (fst (encode_classes encode_scenario))) = Inr 1
   \<and> snd (construct_matrices (test_env [''f'' \<mapsto> three_rows]) pipeline_scenario) = None
   \<and> shape1 (input_set (fst (construct_matrices (test_env [''f'' \<mapsto> three_rows])
        pipeline_scenario))) = Inr 5
   \<and> shape1 (target_set (fst (construct_matrices (test_env [''f'' \<mapsto> three_rows])
        pipeline_scenario))) = Inr 1"
proof -
  have run: "encode_classes encode_scenario = (fst (encode_classes encode_scenario), None)"
    by (simp add: encode_scenario_run)
  have w: "sum_list (map (field_width (classDict encode_scenario) ''class'')
              (input_features encode_scenario)) = 5"
      "sum_list (map (field_width (classDict encode_scenario) ''target_class'')
              (target_features encode_scenario)) = 1"
    by (simp_all add: encode_scenario_facts field_width_def block_width_def)
  have 1: "shape1 (input_set (fst (encode_classes encode_scenario))) = Inr 5
      \<and> shape1 (target_set (fst (encode_classes encode_scenario))) = Inr 1"
    using column_counts_when_returning [where self = encode_scenario
        and self' = "fst (encode_classes encode_scenario)"
        and a = "\<lparr>nrows = 3, cols = [[Num 0, Num 2, Num 1], [Num 5, Num 6, Num 7],
                                      [Num 0, Num 1, Num 0]]\<rparr>"
        and t = "\<lparr>nrows = 3, cols = [[Num 0, Num 1, Num 1]]\<rparr>", THEN conjunct1]
      run w encode_scenario_facts(1,2,3,4)
    by (simp add: encode_scenario_facts(5,6))
  let ?r = "construct_matrices (test_env [''f'' \<mapsto> three_rows]) pipeline_scenario"
  have prun: "?r = (fst ?r, None)" by (simp add: pipeline_run)
  have pf: "input_features pipeline_scenario
        = [(''p'', ''class''), (''a'', ''continuous''), (''e'', ''class'')]"
      "target_features pipeline_scenario = [(''s'', ''target_class'')]"
    by (simp_all add: pipeline_scenario_def init_attributes_def)
  have pcd: "classDict (fst ?r) = [''p'' \<mapsto> [''1'', ''3'', ''2''], ''e'' \<mapsto> [''S'', ''C''],
                        ''s'' \<mapsto> [''0'', ''1'']]"
    by (simp add: pipeline_run)
  have pw: "sum_list (map (field_width (classDict (fst ?r)) ''class'')
              (input_features pipeline_scenario)) = 5"
      "sum_list (map (field_width (classDict (fst ?r)) ''target_class'')
              (target_features pipeline_scenario)) = 1"
    unfolding pcd pf by (simp_all add: field_width_def block_width_def)
  have 2: "shape1 (input_set (fst ?r)) = Inr 5 \<and> shape1 (target_set (fst ?r)) = Inr 1"
    using column_counts_when_returning [where e = "test_env [''f'' \<mapsto> three_rows]"
        and obj = pipeline_scenario and obj' = "fst ?r", THEN conjunct2] prun pw
    by (simp add: pf)
  have 3: "snd ?r = None" by (simp add: pipeline_run)
  from run 1 2 3 show ?thesis by simp
qed

text \<open>
  C8 (the code departs from the claim). For the file \<open>three_rows\<close> the widths of the input
  fields add up to 3 + 1 + 1 = 5. \<open>__init__\<close> raises the AttributeError of line 153 before
  \<open>_encode_classes\<close> is reached: the input matrix it leaves has the 3 columns it was allocated
  with, and \<open>input_vector_length\<close> is never assigned. And on an object whose policy is set, a
  categorical field in a file without records makes \<open>_encode_classes\<close> raise a KeyError on
  line 132, where the claim gives the field one column.
\<close>

theorem final_width_not_reached:
  "snd three_rows_run = Some (AttributeError ''nan_behaviour'')
   \<and> shape1 (input_set (fst three_rows_run)) = Inr 3
   \<and> input_vector_length (fst three_rows_run) = None
   \<and> sum_list (map (field_width (classDict (fst three_rows_run)) ''class'')
        (input_features (fst three_rows_run))) = 5
   \<and> construct_matrices (test_env [''f'' \<mapsto> []]) no_record_scenario
       = (allocated (test_env [''f'' \<mapsto> []]) 0 no_record_scenario, Some (KeyError ''b''))"
proof (intro conjI)
  have st: "fst three_rows_run =
      (init_attributes ''f''
         [(''p'', ''class''), (''a'', ''continuous''), (''e'', ''class''), (''s'', ''target_class'')]
         Map.empty Map.empty)
        \<lparr>classDict := [''p'' \<mapsto> [''1'', ''3'', ''2''], ''e'' \<mapsto> [''S'', ''C''],
                        ''s'' \<mapsto> [''0'', ''1'']],
         input_set := Some \<lparr>nrows = 3, cols =
            [[Num 0, Num 1, Num 2], [Num 5, Num 6, Num 7], [Num 0, Num 1, Num 0]]\<rparr>,
         target_set := Some \<lparr>nrows = 3, cols = [[Num 0, Num 1, Num 1]]\<rparr>\<rparr>"
    by (simp add: three_rows_run_def three_rows_def run_defs)
  show "snd three_rows_run = Some (AttributeError ''nan_behaviour'')"
    by (simp add: three_rows_run_def three_rows_def run_defs)
  show "shape1 (input_set (fst three_rows_run)) = Inr 3"
    by (simp add: st shape1_def)
  show "input_vector_length (fst three_rows_run) = None"
    by (simp add: st init_attributes_def)
  show "sum_list (map (field_width (classDict (fst three_rows_run)) ''class'')
        (input_features (fst three_rows_run))) = 5"
    by (simp add: st init_attributes_def field_width_def block_width_def)
  show "construct_matrices (test_env [''f'' \<mapsto> []]) no_record_scenario
       = (allocated (test_env [''f'' \<mapsto> []]) 0 no_record_scenario, Some (KeyError ''b''))"
    by (simp add: no_record_scenario_def allocated_def pipeline_run_defs)
qed




end
